theory Spec2Isabelle
  imports Main "HOL-Library.AList"
begin

section \<open>Python values, exceptions and the library boundary\<close>

text \<open>
  The pipeline is Python. Its values are embedded as a datatype, its exceptions as the
  left summand of a sum type, its dictionaries as association lists in insertion order
  (\<open>AList.update\<close> replaces the value of an existing key in place and appends a new key,
  as assignment to a Python \<open>dict\<close> does).

  A \<open>char\<close> stands for one code point below 256; strings with larger code points are
  outside the model.
\<close>

datatype exn =
    ValueError
  | TypeError
  | InvalidOperation
  | OverflowError
  | KeyError string
  | ConfigError string
  | LoadError string
  | PatternError
  | OperationalError string
  | DatabaseError string

text \<open>
  A finite \<open>float\<close> is a dyadic number \<open>m * 2 ^ e\<close>; the two infinities and NaN are
  separate values. Negative zero is identified with zero.
\<close>

datatype pyfloat = Finite int int | PosInf | NegInf | NaN

record date =
  year :: nat
  month :: nat
  day :: nat

record datetime = date +
  hour :: nat
  minute :: nat
  second :: nat
  microsecond :: nat

datatype pyval =
    VNone
  | VBool bool
  | VInt int
  | VFloat pyfloat
  | VStr string
  | VList "pyval list"
  | VDict "(string \<times> pyval) list"
  | VDate date
  | VDateTime datetime

text \<open>\<open>decimal.Decimal\<close>: sign, coefficient and exponent, or a special value.\<close>

datatype decimal = Decimal bool nat int | DecimalInfinity bool | DecimalNaN bool

text \<open>
  What \<open>transform_value\<close> hands back for a column: a value of the kinds a document can
  hold, or a \<open>Decimal\<close>, which only conversion produces.
\<close>

datatype outval = Val pyval | Dec decimal

text \<open>
  The parsing and printing routines of the Python library are parameters of the model:
  \<open>str\<close> of a value that is not already a string, \<open>int\<close> and \<open>float\<close> of a string,
  \<open>Decimal\<close> of a string, \<open>datetime.strptime\<close> and the two \<open>strftime\<close> methods. \<open>None\<close>
  stands for the exception the routine raises on text it rejects (\<open>ValueError\<close>, and
  \<open>InvalidOperation\<close> for \<open>Decimal\<close>); \<open>strptime\<close> and \<open>strftime\<close> say which exception they
  raise. Every theorem below holds for all such routines unless it names a hypothesis
  about one of them.
\<close>

record pylib =
  str_of :: "pyval \<Rightarrow> string"
  int_of_str :: "string \<Rightarrow> int option"
  float_of_str :: "string \<Rightarrow> pyfloat option"
  decimal_of_str :: "string \<Rightarrow> decimal option"
  strptime :: "string \<Rightarrow> string \<Rightarrow> exn + datetime"
  strftime_date :: "date \<Rightarrow> string \<Rightarrow> exn + string"
  strftime_datetime :: "datetime \<Rightarrow> string \<Rightarrow> exn + string"

subsection \<open>Strings\<close>

text \<open>\<open>str.isspace\<close> on the code points below 256.\<close>

definition is_space :: "char \<Rightarrow> bool" where
  "is_space c = (let n = (of_char c :: nat) in
     (9 \<le> n \<and> n \<le> 13) \<or> (28 \<le> n \<and> n \<le> 32) \<or> n = 133 \<or> n = 160)"

definition strip :: "string \<Rightarrow> string" where
  "strip s = rev (dropWhile is_space (rev (dropWhile is_space s)))"

text \<open>
  \<open>str.lower\<close> on the code points below 256: the letters A to Z and the accented capitals
  192 to 222 (without the multiplication sign 215) move up by 32, which sets bit 5.
\<close>

definition is_upper :: "char \<Rightarrow> bool" where
  "is_upper c = (let n = (of_char c :: nat) in
     (65 \<le> n \<and> n \<le> 90) \<or> (192 \<le> n \<and> n \<le> 222 \<and> n \<noteq> 215))"

fun set_bit5 :: "char \<Rightarrow> char" where
  "set_bit5 (Char b0 b1 b2 b3 b4 b5 b6 b7) = Char b0 b1 b2 b3 b4 True b6 b7"

definition lower_char :: "char \<Rightarrow> char" where
  "lower_char c = (if is_upper c then set_bit5 c else c)"

definition lower :: "string \<Rightarrow> string" where
  "lower s = map lower_char s"

subsection \<open>Built-in conversions\<close>

text \<open>\<open>str(value)\<close>: a string is returned as it is, anything else is printed by the library.\<close>

fun py_str :: "pylib \<Rightarrow> pyval \<Rightarrow> string" where
  "py_str L (VStr s) = s"
| "py_str L v = str_of L v"

text \<open>
  \<open>int(value)\<close>. A float is truncated towards zero; an infinity raises \<open>OverflowError\<close>
  and NaN raises \<open>ValueError\<close>. Values that are neither numbers nor strings raise
  \<open>TypeError\<close>.
\<close>

definition trunc_dyadic :: "int \<Rightarrow> int \<Rightarrow> int" where
  "trunc_dyadic m e =
     (if 0 \<le> e then m * 2 ^ nat e
      else if 0 \<le> m then m div 2 ^ nat (- e)
      else - ((- m) div 2 ^ nat (- e)))"

fun py_int :: "pylib \<Rightarrow> pyval \<Rightarrow> exn + int" where
  "py_int L (VBool b) = Inr (if b then 1 else 0)"
| "py_int L (VInt n) = Inr n"
| "py_int L (VFloat (Finite m e)) = Inr (trunc_dyadic m e)"
| "py_int L (VFloat NaN) = Inl ValueError"
| "py_int L (VFloat PosInf) = Inl OverflowError"
| "py_int L (VFloat NegInf) = Inl OverflowError"
| "py_int L (VStr s) = (case int_of_str L s of None \<Rightarrow> Inl ValueError | Some n \<Rightarrow> Inr n)"
| "py_int L VNone = Inl TypeError"
| "py_int L (VList xs) = Inl TypeError"
| "py_int L (VDict kvs) = Inl TypeError"
| "py_int L (VDate d) = Inl TypeError"
| "py_int L (VDateTime d) = Inl TypeError"

text \<open>
  \<open>float(value)\<close>. An integer is rounded to 53 significant bits, ties to even; a result
  of \<open>2 ^ 1024\<close> or more raises \<open>OverflowError\<close>.
\<close>

fun bit_length :: "nat \<Rightarrow> nat" where
  "bit_length n = (if n = 0 then 0 else Suc (bit_length (n div 2)))"

declare bit_length.simps [simp del]

definition float_of_int :: "int \<Rightarrow> exn + pyfloat" where
  "float_of_int n =
     (let a = nat \<bar>n\<bar>; k = bit_length a in
      if k \<le> 53 then Inr (Finite n 0)
      else
        let e = k - 53; q = a div 2 ^ e; r = a mod 2 ^ e; h = 2 ^ (e - 1);
            q' = (if h < r \<or> (r = h \<and> odd q) then q + 1 else q)
        in if 2 ^ 1024 \<le> q' * 2 ^ e then Inl OverflowError
           else Inr (Finite (sgn n * int q') (int e)))"

fun py_float :: "pylib \<Rightarrow> pyval \<Rightarrow> exn + pyfloat" where
  "py_float L (VBool b) = Inr (Finite (if b then 1 else 0) 0)"
| "py_float L (VInt n) = float_of_int n"
| "py_float L (VFloat f) = Inr f"
| "py_float L (VStr s) = (case float_of_str L s of None \<Rightarrow> Inl ValueError | Some f \<Rightarrow> Inr f)"
| "py_float L VNone = Inl TypeError"
| "py_float L (VList xs) = Inl TypeError"
| "py_float L (VDict kvs) = Inl TypeError"
| "py_float L (VDate d) = Inl TypeError"
| "py_float L (VDateTime d) = Inl TypeError"

text \<open>\<open>bool(value)\<close> of a float: every float but zero is true, NaN and the infinities too.\<close>

fun float_truth :: "pyfloat \<Rightarrow> bool" where
  "float_truth (Finite m e) = (m \<noteq> 0)"
| "float_truth PosInf = True"
| "float_truth NegInf = True"
| "float_truth NaN = True"

section \<open>type_utils.py\<close>

definition normalize_type :: "string \<Rightarrow> string" where
  "normalize_type type_value = lower (strip type_value)"

definition SUPPORTED_TYPES :: "string set" where
  "SUPPORTED_TYPES =
     {''text'', ''string'', ''varchar'', ''integer'', ''int'', ''bigint'', ''smallint'',
      ''float'', ''double'', ''double precision'', ''numeric'', ''decimal'', ''boolean'',
      ''bool'', ''date'', ''datetime''}"

section \<open>transformer.py\<close>

text \<open>
  \<open>normalize_boolean\<close>. \<open>bool\<close> is tested before \<open>int\<close> and \<open>float\<close>, as in the source
  (a Python \<open>bool\<close> is an \<open>int\<close>). Every path that does not return raises \<open>ValueError\<close>.
\<close>

fun normalize_boolean :: "pyval \<Rightarrow> exn + bool" where
  "normalize_boolean (VBool b) = Inr b"
| "normalize_boolean (VInt n) = Inr (n \<noteq> 0)"
| "normalize_boolean (VFloat f) = Inr (float_truth f)"
| "normalize_boolean (VStr s) =
     (let normalized = lower (strip s) in
      if normalized \<in> {''true'', ''t'', ''yes'', ''y'', ''1''} then Inr True
      else if normalized \<in> {''false'', ''f'', ''no'', ''n'', ''0''} then Inr False
      else Inl ValueError)"
| "normalize_boolean VNone = Inl ValueError"
| "normalize_boolean (VList xs) = Inl ValueError"
| "normalize_boolean (VDict kvs) = Inl ValueError"
| "normalize_boolean (VDate d) = Inl ValueError"
| "normalize_boolean (VDateTime d) = Inl ValueError"

text \<open>
  The loop of \<open>parse_date\<close> and \<open>parse_datetime\<close> over the configured formats: the first
  format that \<open>strptime\<close> accepts decides; \<open>except ValueError: continue\<close> moves on to the
  next format, any other exception leaves the loop.
\<close>

fun first_format :: "pylib \<Rightarrow> string \<Rightarrow> string list \<Rightarrow> exn + datetime option" where
  "first_format L s [] = Inr None"
| "first_format L s (date_format # rest) =
     (case strptime L s date_format of
        Inr parsed \<Rightarrow> Inr (Some parsed)
      | Inl e \<Rightarrow> if e = ValueError then first_format L s rest else Inl e)"

definition midnight :: "date \<Rightarrow> datetime" where
  "midnight d = date.extend d (datetime.fields 0 0 0 0)"

fun parse_date :: "pylib \<Rightarrow> pyval \<Rightarrow> string list \<Rightarrow> exn + date option" where
  "parse_date L (VDateTime dt) date_formats = Inr (Some (date.truncate dt))"
| "parse_date L (VDate d) date_formats = Inr (Some d)"
| "parse_date L (VStr s) date_formats =
     (case first_format L s date_formats of
        Inl e \<Rightarrow> Inl e
      | Inr r \<Rightarrow> Inr (map_option date.truncate r))"
| "parse_date L v date_formats = Inr None"

fun parse_datetime :: "pylib \<Rightarrow> pyval \<Rightarrow> string list \<Rightarrow> exn + datetime option" where
  "parse_datetime L (VDateTime dt) date_formats = Inr (Some dt)"
| "parse_datetime L (VDate d) date_formats = Inr (Some (midnight d))"
| "parse_datetime L (VStr s) date_formats = first_format L s date_formats"
| "parse_datetime L v date_formats = Inr None"

text \<open>
  The body of the \<open>try\<close> block of \<open>transform_value\<close>: \<open>Inl\<close> is an exception raised inside
  it, \<open>Inr None\<close> is falling through every \<open>if\<close>, \<open>Inr (Some r)\<close> is a \<open>return r\<close>.
\<close>

definition try_body ::
  "pylib \<Rightarrow> pyval \<Rightarrow> string \<Rightarrow> string list \<Rightarrow> string \<Rightarrow> string \<Rightarrow>
     exn + (outval \<times> string option) option" where
  "try_body L v normalized_type date_formats date_output_format datetime_output_format =
     (if normalized_type \<in> {''text'', ''string'', ''varchar''} then
        Inr (Some (Val (VStr (py_str L v)), None))
      else if normalized_type \<in> {''integer'', ''int'', ''bigint'', ''smallint''} then
        (case py_int L v of
           Inl e \<Rightarrow> Inl e
         | Inr n \<Rightarrow> Inr (Some (Val (VInt n), None)))
      else if normalized_type \<in> {''float'', ''double'', ''double precision''} then
        (case py_float L v of
           Inl e \<Rightarrow> Inl e
         | Inr f \<Rightarrow> Inr (Some (Val (VFloat f), None)))
      else if normalized_type \<in> {''numeric'', ''decimal''} then
        (case decimal_of_str L (py_str L v) of
           None \<Rightarrow> Inl InvalidOperation
         | Some d \<Rightarrow> Inr (Some (Dec d, None)))
      else if normalized_type \<in> {''boolean'', ''bool''} then
        (case normalize_boolean v of
           Inl e \<Rightarrow> Inl e
         | Inr b \<Rightarrow> Inr (Some (Val (VBool b), None)))
      else if normalized_type = ''date'' then
        (case parse_date L v date_formats of
           Inl e \<Rightarrow> Inl e
         | Inr None \<Rightarrow> Inr (Some (Val VNone, Some ''invalid date format''))
         | Inr (Some parsed) \<Rightarrow>
             (case strftime_date L parsed date_output_format of
                Inl e \<Rightarrow> Inl e
              | Inr s \<Rightarrow> Inr (Some (Val (VStr s), None))))
      else if normalized_type = ''datetime'' then
        (case parse_datetime L v date_formats of
           Inl e \<Rightarrow> Inl e
         | Inr None \<Rightarrow> Inr (Some (Val VNone, Some ''invalid datetime format''))
         | Inr (Some parsed) \<Rightarrow>
             (case strftime_datetime L parsed datetime_output_format of
                Inl e \<Rightarrow> Inl e
              | Inr s \<Rightarrow> Inr (Some (Val (VStr s), None))))
      else Inr None)"

text \<open>The classes named by \<open>except (ValueError, TypeError, InvalidOperation)\<close>.\<close>

fun caught :: "exn \<Rightarrow> bool" where
  "caught ValueError = True"
| "caught TypeError = True"
| "caught InvalidOperation = True"
| "caught e = False"

definition transform_value ::
  "pylib \<Rightarrow> pyval \<Rightarrow> string \<Rightarrow> string list \<Rightarrow> string \<Rightarrow> string \<Rightarrow>
     exn + (outval \<times> string option)" where
  "transform_value L v target_type date_formats date_output_format datetime_output_format =
     (if v = VNone then Inr (Val VNone, None)
      else
        (case try_body L v (normalize_type target_type) date_formats
                date_output_format datetime_output_format of
           Inl e \<Rightarrow>
             if caught e
             then Inr (Val VNone, Some (''invalid value for type '' @ [CHR 0x27] @ target_type @ [CHR 0x27]))
             else Inl e
         | Inr (Some r) \<Rightarrow> Inr r
         | Inr None \<Rightarrow>
             Inr (Val VNone, Some (''unsupported target type '' @ [CHR 0x27] @ target_type @ [CHR 0x27]))))"

text \<open>One entry of a collection's \<open>mappings\<close>: \<open>{"column": ..., "type": ...}\<close>.\<close>

record mapping =
  column :: string
  type :: string

text \<open>The three results that \<open>transform_document\<close> builds up while it loops.\<close>

record transform_result =
  transformed :: "(string \<times> outval) list"
  missing_columns :: "string list"
  errors :: "string list"

text \<open>
  Truth value of the \<open>error\<close> that \<open>transform_value\<close> returned (\<open>None\<close> and \<open>""\<close> are
  false), and its text inside an f-string.
\<close>

fun truthy_error :: "string option \<Rightarrow> bool" where
  "truthy_error None = False"
| "truthy_error (Some s) = (s \<noteq> [])"

fun format_error :: "string option \<Rightarrow> string" where
  "format_error None = ''None''"
| "format_error (Some s) = s"

text \<open>
  The body of the loop of \<open>transform_document\<close> for one item of \<open>mappings.items()\<close>.
  An exception that \<open>transform_value\<close> lets through leaves the function.
\<close>

definition transform_step ::
  "pylib \<Rightarrow> (string \<times> pyval) list \<Rightarrow> string list \<Rightarrow> string \<Rightarrow> string \<Rightarrow>
     string \<Rightarrow> mapping \<Rightarrow> transform_result \<Rightarrow> exn + transform_result" where
  "transform_step L document date_formats date_output_format datetime_output_format
     source_attr m acc =
     (case map_of document source_attr of
        None \<Rightarrow>
          Inr (acc\<lparr>transformed := AList.update (column m) (Val VNone) (transformed acc),
                   missing_columns := missing_columns acc @ [column m]\<rparr>)
      | Some v \<Rightarrow>
          (case transform_value L v (type m) date_formats date_output_format datetime_output_format of
             Inl e \<Rightarrow> Inl e
           | Inr (converted, error) \<Rightarrow>
               if truthy_error error then
                 Inr (acc\<lparr>transformed := AList.update (column m) (Val VNone) (transformed acc),
                          errors := errors acc @ [source_attr @ '': '' @ format_error error]\<rparr>)
               else
                 Inr (acc\<lparr>transformed := AList.update (column m) converted (transformed acc)\<rparr>)))"

fun transform_loop ::
  "pylib \<Rightarrow> (string \<times> pyval) list \<Rightarrow> string list \<Rightarrow> string \<Rightarrow> string \<Rightarrow>
     (string \<times> mapping) list \<Rightarrow> transform_result \<Rightarrow> exn + transform_result" where
  "transform_loop L document date_formats date_output_format datetime_output_format [] acc = Inr acc"
| "transform_loop L document date_formats date_output_format datetime_output_format
     ((source_attr, m) # rest) acc =
     (case transform_step L document date_formats date_output_format datetime_output_format
             source_attr m acc of
        Inl e \<Rightarrow> Inl e
      | Inr acc' \<Rightarrow>
          transform_loop L document date_formats date_output_format datetime_output_format rest acc')"

definition transform_document ::
  "pylib \<Rightarrow> (string \<times> pyval) list \<Rightarrow> (string \<times> mapping) list \<Rightarrow> string list \<Rightarrow>
     string \<Rightarrow> string \<Rightarrow> exn + transform_result" where
  "transform_document L document mappings date_formats date_output_format datetime_output_format =
     transform_loop L document date_formats date_output_format datetime_output_format mappings
       \<lparr>transformed = [], missing_columns = [], errors = []\<rparr>"

section \<open>postgres_loader.py and schema_utils.py: table names\<close>

definition split_table_name :: "string \<Rightarrow> string \<times> string" where
  "split_table_name table_name =
     (if CHR ''.'' \<in> set table_name
      then (takeWhile (\<lambda>c. c \<noteq> CHR ''.'') table_name,
            tl (dropWhile (\<lambda>c. c \<noteq> CHR ''.'') table_name))
      else (''public'', table_name))"

definition normalize_table_name :: "string \<Rightarrow> string" where
  "normalize_table_name table_name =
     (case split_table_name table_name of
        (schema, table) \<Rightarrow> lower schema @ ''.'' @ lower table)"

section \<open>postgres_loader.py: the loader over one connection\<close>

text \<open>
  The loader sends statements to one cursor. The model keeps the list of statements sent
  so far. \<open>insert_row\<close> is called from two places in the per-document loop of \<open>run\<close>; the
  entry for an \<open>INSERT\<close> keeps which of the two it was, so that the row for the
  destination table and the row for the audit table can be told apart even when both
  name the same table.

  The database is a parameter: what \<open>information_schema.tables\<close> holds and whether a
  statement raises are functions of the statements sent before.
\<close>

datatype site = Business | Audit

record column_def =
  col_name :: string
  col_type :: string
  not_null :: bool

datatype db_op =
    SelectTable string string
  | Insert site string string "(string \<times> outval) list"
  | CreateTable string string "column_def list"
  | CreateSchema string
  | Commit
  | Rollback

record db_env =
  tables :: "db_op list \<Rightarrow> (string \<times> string) list"
  failure :: "db_op list \<Rightarrow> db_op \<Rightarrow> exn option"
  now :: "nat \<Rightarrow> datetime"

text \<open>\<open>cursor.execute\<close>, \<open>connection.commit\<close>, \<open>connection.rollback\<close>: the statement is sent, and raises or not.\<close>

definition execute :: "db_env \<Rightarrow> db_op \<Rightarrow> db_op list \<Rightarrow> (exn + unit) \<times> db_op list" where
  "execute env op sent =
     (case failure env sent op of
        Some e \<Rightarrow> (Inl e, sent @ [op])
      | None \<Rightarrow> (Inr (), sent @ [op]))"

definition commit :: "db_env \<Rightarrow> db_op list \<Rightarrow> (exn + unit) \<times> db_op list" where
  "commit env sent = execute env Commit sent"

definition rollback :: "db_env \<Rightarrow> db_op list \<Rightarrow> (exn + unit) \<times> db_op list" where
  "rollback env sent = execute env Rollback sent"

text \<open>
  \<open>table_exists\<close>: the name is split, not normalized, and the two parts are compared with
  \<open>table_schema\<close> and \<open>table_name\<close> by SQL equality.
\<close>

definition table_exists :: "db_env \<Rightarrow> string \<Rightarrow> db_op list \<Rightarrow> (exn + bool) \<times> db_op list" where
  "table_exists env table_name sent =
     (case split_table_name table_name of
        (schema, table) \<Rightarrow>
          (case failure env sent (SelectTable schema table) of
             Some e \<Rightarrow> (Inl e, sent @ [SelectTable schema table])
           | None \<Rightarrow>
               (Inr ((schema, table) \<in> set (tables env sent)),
                sent @ [SelectTable schema table])))"

definition insert_row ::
  "db_env \<Rightarrow> site \<Rightarrow> string \<Rightarrow> (string \<times> outval) list \<Rightarrow> db_op list \<Rightarrow>
     (exn + unit) \<times> db_op list" where
  "insert_row env at table_name row sent =
     (if row = [] then (Inl (LoadError ''Cannot insert empty row.''), sent)
      else
        (case split_table_name table_name of
           (schema, table) \<Rightarrow> execute env (Insert at schema table row) sent))"

definition create_table ::
  "db_env \<Rightarrow> string \<Rightarrow> column_def list \<Rightarrow> db_op list \<Rightarrow> (exn + unit) \<times> db_op list" where
  "create_table env table_name columns sent =
     (if columns = [] then (Inl (LoadError ''Cannot create table without columns.''), sent)
      else
        (case split_table_name table_name of
           (schema, table) \<Rightarrow> execute env (CreateTable schema table columns) sent))"

definition create_schema :: "db_env \<Rightarrow> string \<Rightarrow> db_op list \<Rightarrow> (exn + unit) \<times> db_op list" where
  "create_schema env schema_name sent =
     (if schema_name = [] then (Inl (LoadError ''Schema name is required.''), sent)
      else execute env (CreateSchema schema_name) sent)"

section \<open>postgres_loader.py: ensure_database\<close>

text \<open>
  The keys of \<open>db_config\<close> that \<open>ensure_database\<close> reads. \<open>create_if_missing\<close> and \<open>admin_db\<close>
  are optional keys (\<open>None\<close> is an absent key; \<open>.get\<close> supplies \<open>True\<close> and \<open>"postgres"\<close>).
\<close>

record db_config =
  host :: string
  port :: string
  name :: string
  user :: string
  password :: string
  sslmode :: "string option"
  create_if_missing :: "bool option"
  admin_db :: "string option"

text \<open>
  What \<open>ensure_database\<close> does to the server: connections by database name, the lookup
  in \<open>pg_database\<close>, and \<open>CREATE DATABASE\<close>. The server is a parameter: whether a step
  raises and whether the lookup finds a row are functions of the steps before.
  \<open>connection.close\<close> and \<open>set_session\<close> are taken not to raise.
\<close>

datatype server_op =
    Connect string
  | Close
  | SelectDatabase string
  | CreateDatabase string

record server_env =
  step_failure :: "server_op list \<Rightarrow> server_op \<Rightarrow> exn option"
  database_listed :: "server_op list \<Rightarrow> string \<Rightarrow> bool"

text \<open>\<open>str(exc)\<close>.\<close>

fun exn_message :: "exn \<Rightarrow> string" where
  "exn_message (KeyError m) = m"
| "exn_message (ConfigError m) = m"
| "exn_message (LoadError m) = m"
| "exn_message (OperationalError m) = m"
| "exn_message (DatabaseError m) = m"
| "exn_message e = []"

text \<open>The \<open>in\<close> operator on strings.\<close>

fun starts_with :: "string \<Rightarrow> string \<Rightarrow> bool" where
  "starts_with [] s = True"
| "starts_with (p # ps) [] = False"
| "starts_with (p # ps) (c # cs) = (p = c \<and> starts_with ps cs)"

fun contains :: "string \<Rightarrow> string \<Rightarrow> bool" where
  "contains needle [] = (needle = [])"
| "contains needle (c # cs) = (starts_with needle (c # cs) \<or> contains needle cs)"

text \<open>
  The second half of \<open>ensure_database\<close>: the connection to the administrative database,
  the lookup, the \<open>CREATE DATABASE\<close>, all inside \<open>try ... except Exception\<close>, with the
  connection closed in \<open>finally\<close> when it was opened.
\<close>

definition create_database :: "server_env \<Rightarrow> db_config \<Rightarrow> server_op list \<Rightarrow> (exn + unit) \<times> server_op list" where
  "create_database env cfg steps =
     (let admin = (case admin_db cfg of None \<Rightarrow> ''postgres'' | Some a \<Rightarrow> a);
          wrap = (\<lambda>e. LoadError (''Failed to create database '' @ [CHR 0x27] @ name cfg @ [CHR 0x27]
                                   @ '': '' @ exn_message e))
      in case step_failure env steps (Connect admin) of
           Some e \<Rightarrow> (Inl (wrap e), steps @ [Connect admin])
         | None \<Rightarrow>
             (let s1 = steps @ [Connect admin] in
              case step_failure env s1 (SelectDatabase (name cfg)) of
                Some e \<Rightarrow> (Inl (wrap e), s1 @ [SelectDatabase (name cfg), Close])
              | None \<Rightarrow>
                  (let s2 = s1 @ [SelectDatabase (name cfg)] in
                   if database_listed env s1 (name cfg) then (Inr (), s2 @ [Close])
                   else
                     (case step_failure env s2 (CreateDatabase (name cfg)) of
                        Some e \<Rightarrow> (Inl (wrap e), s2 @ [CreateDatabase (name cfg), Close])
                      | None \<Rightarrow> (Inr (), s2 @ [CreateDatabase (name cfg), Close])))))"

definition ensure_database :: "server_env \<Rightarrow> db_config \<Rightarrow> (exn + unit) \<times> server_op list" where
  "ensure_database env cfg =
     (if \<not> (case create_if_missing cfg of None \<Rightarrow> True | Some b \<Rightarrow> b) then (Inr (), [])
      else
        (case step_failure env [] (Connect (name cfg)) of
           None \<Rightarrow> (Inr (), [Connect (name cfg), Close])
         | Some (OperationalError message) \<Rightarrow>
             if \<not> contains ''does not exist'' message then
               (Inl (LoadError (''Failed to connect to PostgreSQL: '' @ message)),
                [Connect (name cfg)])
             else if \<not> (case create_if_missing cfg of None \<Rightarrow> True | Some b \<Rightarrow> b) then
               (Inl (LoadError (''Database '' @ [CHR 0x27] @ name cfg @ [CHR 0x27]
                                @ '' does not exist and auto-create is disabled.'')),
                [Connect (name cfg)])
             else create_database env cfg [Connect (name cfg)]
         | Some e \<Rightarrow> (Inl e, [Connect (name cfg)])))"

section \<open>Dictionaries\<close>

text \<open>
  A dictionary display \<open>{k1: v1, k2: v2, ...}\<close> and the unpacking \<open>{**a, k: v, **b}\<close>: the
  items are stored from left to right, a later item for a key that is already there
  replaces its value. \<open>d[k]\<close> raises \<open>KeyError\<close> for a missing key.
\<close>

definition store_items :: "(string \<times> 'v) list \<Rightarrow> (string \<times> 'v) list \<Rightarrow> (string \<times> 'v) list" where
  "store_items d items = foldl (\<lambda>acc (k, v). AList.update k v acc) d items"

definition getitem :: "(string \<times> 'v) list \<Rightarrow> string \<Rightarrow> exn + 'v" where
  "getitem d k = (case map_of d k of None \<Rightarrow> Inl (KeyError k) | Some v \<Rightarrow> Inr v)"

section \<open>Configuration\<close>

text \<open>
  The configuration after \<open>validate_app_config\<close> and \<open>validate_mapping_config\<close>, which
  raise \<open>ConfigError\<close> before any database work unless the keys read below are present.
  The dictionaries that the code only reads at fixed, validated keys are records; the
  ones it iterates over are association lists.
\<close>

record status_values =
  status_success :: string
  status_error :: string
  status_missing :: string

record object_status_values =
  object_new :: string
  object_missing :: string
  object_already_exists :: string

record audit_columns =
  ingested_at_column :: string
  object_id_column :: string
  source_collection_column :: string
  object_name_column :: string
  object_status_column :: string
  missing_columns_column :: string
  processing_status_column :: string

record audit_config =
  audit_table :: string
  audit_schema :: "string option"
  audit_columns :: audit_columns
  business_columns :: "(string \<times> string) list"
  business_column_types :: "(string \<times> string) list"
  status_values :: status_values
  object_status_values :: object_status_values

record runtime_config =
  date_formats :: "string list"
  date_output_format :: string
  datetime_output_format :: string
  type_mappings :: "(string \<times> string) list"

record collection_config =
  target_table :: string
  raw_json_column :: string
  object_id_attribute :: string
  mappings :: "(string \<times> mapping) list"

text \<open>
  The check of \<open>validate_app_config\<close> on \<open>audit.business_columns\<close>: the three keys that
  \<open>build_business_audit_fields\<close> reads are present.
\<close>

definition business_columns_validated :: "audit_config \<Rightarrow> bool" where
  "business_columns_validated cfg =
     list_all (\<lambda>k. map_of (business_columns cfg) k \<noteq> None)
       [''ingested_at'', ''source_collection'', ''status'']"

section \<open>mapping_resolver.py\<close>

definition get_collection_mapping ::
  "(string \<times> collection_config) list \<Rightarrow> string \<Rightarrow> collection_config option" where
  "get_collection_mapping collections collection_name = map_of collections collection_name"

section \<open>schema_manager.py\<close>

definition normalize_type_mappings :: "(string \<times> string) list \<Rightarrow> (string \<times> string) list" where
  "normalize_type_mappings tm = store_items [] (map (\<lambda>(key, value). (normalize_type key, value)) tm)"

text \<open>\<open>_add_column\<close>; the set \<open>column_names\<close> of the source is the set of names in \<open>columns\<close>.\<close>

definition add_column :: "column_def list \<Rightarrow> string \<Rightarrow> string \<Rightarrow> bool \<Rightarrow> exn + column_def list" where
  "add_column columns cname sql_type nn =
     (if cname \<in> col_name ` set columns
      then Inl (ConfigError (''Duplicate column name detected: '' @ cname))
      else Inr (columns @ [\<lparr>col_name = cname, col_type = sql_type, not_null = nn\<rparr>]))"

fun add_mapping_columns ::
  "(string \<times> string) list \<Rightarrow> (string \<times> mapping) list \<Rightarrow> column_def list \<Rightarrow> exn + column_def list" where
  "add_mapping_columns ntm [] columns = Inr columns"
| "add_mapping_columns ntm ((source_attr, m) # rest) columns =
     (case map_of ntm (normalize_type (type m)) of
        None \<Rightarrow>
          Inl (ConfigError (''Missing SQL type mapping for '' @ [CHR 0x27] @ type m @ [CHR 0x27]
                            @ '' in runtime.type_mappings.''))
      | Some sql_type \<Rightarrow>
          (case add_column columns (column m) sql_type False of
             Inl e \<Rightarrow> Inl e
           | Inr columns' \<Rightarrow> add_mapping_columns ntm rest columns'))"

fun add_business_columns ::
  "(string \<times> string) list \<Rightarrow> (string \<times> string) list \<Rightarrow> column_def list \<Rightarrow> exn + column_def list" where
  "add_business_columns bct [] columns = Inr columns"
| "add_business_columns bct ((logical_name, column_name) # rest) columns =
     (case map_of bct logical_name of
        None \<Rightarrow>
          Inl (ConfigError (''Missing audit.business_column_types for '' @ [CHR 0x27]
                            @ logical_name @ [CHR 0x27] @ ''.''))
      | Some sql_type \<Rightarrow>
          (case add_column columns column_name sql_type True of
             Inl e \<Rightarrow> Inl e
           | Inr columns' \<Rightarrow> add_business_columns bct rest columns'))"

definition build_table_columns ::
  "(string \<times> mapping) list \<Rightarrow> string \<Rightarrow> (string \<times> string) list \<Rightarrow> (string \<times> string) list \<Rightarrow>
     (string \<times> string) list \<Rightarrow> exn + column_def list" where
  "build_table_columns ms raw_column tm bc bct =
     (case add_mapping_columns (normalize_type_mappings tm) ms [] of
        Inl e \<Rightarrow> Inl e
      | Inr columns \<Rightarrow>
          (case add_column columns raw_column ''JSONB'' True of
             Inl e \<Rightarrow> Inl e
           | Inr columns' \<Rightarrow> add_business_columns bct bc columns'))"

section \<open>audit.py\<close>

text \<open>
  The two builders read the clock themselves (\<open>datetime.now(timezone.utc)\<close>); here the
  instant read is an argument, supplied by the caller from the clock of the environment.
\<close>

definition build_business_audit_fields ::
  "audit_config \<Rightarrow> datetime \<Rightarrow> string \<Rightarrow> string \<Rightarrow> exn + (string \<times> outval) list" where
  "build_business_audit_fields cfg instant collection_name status =
     (case getitem (business_columns cfg) ''ingested_at'' of
        Inl e \<Rightarrow> Inl e
      | Inr c1 \<Rightarrow>
          (case getitem (business_columns cfg) ''source_collection'' of
             Inl e \<Rightarrow> Inl e
           | Inr c2 \<Rightarrow>
               (case getitem (business_columns cfg) ''status'' of
                  Inl e \<Rightarrow> Inl e
                | Inr c3 \<Rightarrow>
                    Inr (store_items []
                           [(c1, Val (VDateTime instant)),
                            (c2, Val (VStr collection_name)),
                            (c3, Val (VStr status))]))))"

definition build_audit_row ::
  "audit_config \<Rightarrow> datetime \<Rightarrow> pyval \<Rightarrow> pyval \<Rightarrow> string \<Rightarrow> string \<Rightarrow> string list \<Rightarrow> string \<Rightarrow>
     (string \<times> outval) list" where
  "build_audit_row cfg instant object_id source_collection object_name object_status missing
     processing_status =
     (let columns = audit_columns cfg in
      store_items []
        [(ingested_at_column columns, Val (VDateTime instant)),
         (object_id_column columns, Val object_id),
         (source_collection_column columns, Val source_collection),
         (object_name_column columns, Val (VStr object_name)),
         (object_status_column columns, Val (VStr object_status)),
         (missing_columns_column columns, Val (VList (map VStr missing))),
         (processing_status_column columns, Val (VStr processing_status))])"

section \<open>reporting.py\<close>

record pipeline_report =
  missing_collections :: "string set"
  unmapped_collections :: "string set"
  missing_tables_db :: "string set"
  missing_tables_input :: "string set"
  processed_counts :: "string \<Rightarrow> nat"
  error_counts :: "string \<Rightarrow> nat"
  insert_failures :: "string \<Rightarrow> nat"
  object_statuses :: "string \<rightharpoonup> string"
  missing_columns_by_object :: "string \<Rightarrow> string set"
  missing_columns_count :: nat

definition record_document :: "string \<Rightarrow> bool \<Rightarrow> bool \<Rightarrow> pipeline_report \<Rightarrow> pipeline_report" where
  "record_document collection_name had_errors insert_failed r =
     (if insert_failed then
        r\<lparr>insert_failures := (insert_failures r)(collection_name := insert_failures r collection_name + 1)\<rparr>
      else
        (let r1 = r\<lparr>processed_counts :=
                      (processed_counts r)(collection_name := processed_counts r collection_name + 1)\<rparr>
         in if had_errors then
              r1\<lparr>error_counts := (error_counts r1)(collection_name := error_counts r1 collection_name + 1)\<rparr>
            else r1))"

definition record_object_status :: "string \<Rightarrow> string \<Rightarrow> pipeline_report \<Rightarrow> pipeline_report" where
  "record_object_status object_name status r =
     r\<lparr>object_statuses := (object_statuses r)(object_name \<mapsto> status)\<rparr>"

definition record_missing_columns :: "string \<Rightarrow> string list \<Rightarrow> pipeline_report \<Rightarrow> pipeline_report" where
  "record_missing_columns object_name missing r =
     (if missing = [] then r
      else r\<lparr>missing_columns_by_object :=
                 (missing_columns_by_object r)
                   (object_name := missing_columns_by_object r object_name \<union> set missing),
               missing_columns_count := missing_columns_count r + 1\<rparr>)"

section \<open>pipeline.py: the loop of run over the collections\<close>

text \<open>
  The state that the loop threads through: the statements sent on the loader, the report,
  and how often the clock has been read.
\<close>

record run_state =
  sent :: "db_op list"
  report :: pipeline_report
  ticks :: nat



text \<open>Lines 214 to 219: the status that follows from the transformation alone.\<close>

definition business_status :: "audit_config \<Rightarrow> string list \<Rightarrow> string" where
  "business_status cfg errs =
     (if errs \<noteq> [] then status_error (status_values cfg) else status_success (status_values cfg))"

text \<open>
  Lines 229 to 252: the insert into the destination table. The result is the processing
  status, the flag \<open>insert_failed\<close> and the state; \<open>Inl\<close> is an exception that leaves the
  loop (from building the row, or from \<open>rollback\<close> inside the handler).
\<close>

definition insert_business_row ::
  "db_env \<Rightarrow> audit_config \<Rightarrow> string \<Rightarrow> collection_config \<Rightarrow> bool \<Rightarrow> (string \<times> pyval) list \<Rightarrow>
     transform_result \<Rightarrow> run_state \<Rightarrow> (exn \<times> run_state) + (string \<times> bool \<times> run_state)" where
  "insert_business_row env cfg collection_name cc table_found document tr st =
     (if table_found then
        (case build_business_audit_fields cfg (now env (ticks st)) collection_name
                (business_status cfg (errors tr)) of
           Inl e \<Rightarrow>
             Inl (e, st\<lparr>ticks := ticks st +
                          (if map_of (business_columns cfg) ''ingested_at'' = None then 0 else 1)\<rparr>)
         | Inr business_fields \<Rightarrow>
             (let row = store_items (transformed tr)
                          ((raw_json_column cc, Val (VDict document)) # business_fields);
                  st1 = st\<lparr>ticks := ticks st + 1\<rparr>
              in case insert_row env Business (target_table cc) row (sent st1) of
                   (Inr u, s) \<Rightarrow> Inr (business_status cfg (errors tr), False, st1\<lparr>sent := s\<rparr>)
                 | (Inl e, s) \<Rightarrow>
                     (case rollback env s of
                        (Inl e', s') \<Rightarrow> Inl (e', st1\<lparr>sent := s'\<rparr>)
                      | (Inr u, s') \<Rightarrow>
                          Inr (status_error (status_values cfg), True, st1\<lparr>sent := s'\<rparr>))))
      else Inr (status_missing (status_values cfg), True, st))"

text \<open>Line 220 and line 256: \<open>str(object_id) if object_id is not None else None\<close>.\<close>

definition object_id_value :: "pylib \<Rightarrow> collection_config \<Rightarrow> (string \<times> pyval) list \<Rightarrow> pyval" where
  "object_id_value L cc document =
     (case map_of document (object_id_attribute cc) of
        None \<Rightarrow> VNone
      | Some v \<Rightarrow> if v = VNone then VNone else VStr (py_str L v))"

text \<open>Lines 254 to 284: the audit row, its insert and commit, and the count in the report.\<close>

definition insert_audit_row ::
  "pylib \<Rightarrow> db_env \<Rightarrow> audit_config \<Rightarrow> string \<Rightarrow> collection_config \<Rightarrow> string \<Rightarrow>
     (string \<times> pyval) list \<Rightarrow> transform_result \<Rightarrow> string \<Rightarrow> bool \<Rightarrow> run_state \<Rightarrow>
     (exn \<times> run_state) + run_state" where
  "insert_audit_row L env cfg collection_name cc object_status document tr processing_status
     insert_failed st =
     (let audit_row = build_audit_row cfg (now env (ticks st)) (object_id_value L cc document)
                        (VStr collection_name)
                        (target_table cc) object_status (missing_columns tr) processing_status;
          st1 = st\<lparr>ticks := ticks st + 1\<rparr>;
          failed = (\<lambda>s. case rollback env s of
                      (Inl e', s') \<Rightarrow> Inl (e', st1\<lparr>sent := s'\<rparr>)
                    | (Inr u, s') \<Rightarrow>
                        Inr (st1\<lparr>sent := s',
                                 report := record_document collection_name (errors tr \<noteq> []) True
                                             (report st1)\<rparr>))
      in case insert_row env Audit (audit_table cfg) audit_row (sent st1) of
           (Inl e, s) \<Rightarrow> failed s
         | (Inr u, s) \<Rightarrow>
             (case commit env s of
                (Inl e, s') \<Rightarrow> failed s'
              | (Inr u', s') \<Rightarrow>
                  Inr (st1\<lparr>sent := s',
                           report := record_document collection_name (errors tr \<noteq> []) insert_failed
                                       (report st1)\<rparr>)))"

text \<open>The body of the loop over the documents of one collection (lines 188 to 284).\<close>

definition process_document ::
  "pylib \<Rightarrow> db_env \<Rightarrow> runtime_config \<Rightarrow> audit_config \<Rightarrow> string \<Rightarrow> collection_config \<Rightarrow> string \<Rightarrow>
     bool \<Rightarrow> (string \<times> pyval) list \<Rightarrow> run_state \<Rightarrow> (exn \<times> run_state) + run_state" where
  "process_document L env rt cfg collection_name cc object_status table_found document st =
     (case transform_document L document (mappings cc) (date_formats rt)
             (date_output_format rt) (datetime_output_format rt) of
        Inl e \<Rightarrow> Inl (e, st)
      | Inr tr \<Rightarrow>
          (let st1 = st\<lparr>report := record_missing_columns (target_table cc) (missing_columns tr)
                                     (report st)\<rparr>
           in case insert_business_row env cfg collection_name cc table_found document tr st1 of
                Inl x \<Rightarrow> Inl x
              | Inr (processing_status, insert_failed, st2) \<Rightarrow>
                  insert_audit_row L env cfg collection_name cc object_status document tr
                    processing_status insert_failed st2))"

fun process_documents ::
  "pylib \<Rightarrow> db_env \<Rightarrow> runtime_config \<Rightarrow> audit_config \<Rightarrow> string \<Rightarrow> collection_config \<Rightarrow> string \<Rightarrow>
     bool \<Rightarrow> (string \<times> pyval) list list \<Rightarrow> run_state \<Rightarrow> (exn \<times> run_state) + run_state" where
  "process_documents L env rt cfg collection_name cc object_status table_found [] st = Inr st"
| "process_documents L env rt cfg collection_name cc object_status table_found (document # rest) st =
     (case process_document L env rt cfg collection_name cc object_status table_found document st of
        Inl x \<Rightarrow> Inl x
      | Inr st' \<Rightarrow>
          process_documents L env rt cfg collection_name cc object_status table_found rest st')"

text \<open>Lines 147 to 152: the status of the destination table.\<close>

definition resolve_object_status :: "audit_config \<Rightarrow> bool \<Rightarrow> bool \<Rightarrow> string" where
  "resolve_object_status cfg table_found table_in_schema =
     (if table_found then object_already_exists (object_status_values cfg)
      else if \<not> table_in_schema then object_new (object_status_values cfg)
      else object_missing (object_status_values cfg))"

text \<open>
  Lines 156 to 172: the destination table is created when it was not found and the
  schema source does not name it. Each of the four steps can raise, which ends the run.
\<close>

definition auto_create ::
  "db_env \<Rightarrow> runtime_config \<Rightarrow> audit_config \<Rightarrow> collection_config \<Rightarrow> run_state \<Rightarrow>
     (exn \<times> run_state) + run_state" where
  "auto_create env rt cfg cc st =
     (case create_schema env (fst (split_table_name (target_table cc))) (sent st) of
        (Inl e, s) \<Rightarrow> Inl (e, st\<lparr>sent := s\<rparr>)
      | (Inr u, s) \<Rightarrow>
          (case build_table_columns (mappings cc) (raw_json_column cc) (type_mappings rt)
                  (business_columns cfg) (business_column_types cfg) of
             Inl e \<Rightarrow> Inl (e, st\<lparr>sent := s\<rparr>)
           | Inr table_columns \<Rightarrow>
               (case create_table env (target_table cc) table_columns s of
                  (Inl e, s') \<Rightarrow> Inl (e, st\<lparr>sent := s'\<rparr>)
                | (Inr u', s') \<Rightarrow>
                    (case commit env s' of
                       (Inl e, s'') \<Rightarrow> Inl (e, st\<lparr>sent := s''\<rparr>)
                     | (Inr u'', s'') \<Rightarrow> Inr (st\<lparr>sent := s''\<rparr>)))))"

text \<open>The body of the loop over \<open>input_data.items()\<close> (lines 128 to 284).\<close>

definition process_collection ::
  "pylib \<Rightarrow> db_env \<Rightarrow> runtime_config \<Rightarrow> audit_config \<Rightarrow> (string \<times> collection_config) list \<Rightarrow>
     string list \<Rightarrow> string \<Rightarrow> (string \<times> pyval) list list \<Rightarrow> run_state \<Rightarrow>
     (exn \<times> run_state) + run_state" where
  "process_collection L env rt cfg collections no_audit collection_name documents st =
     (case get_collection_mapping collections collection_name of
        None \<Rightarrow>
          Inr (st\<lparr>report := (report st)\<lparr>unmapped_collections :=
                                 insert collection_name (unmapped_collections (report st))\<rparr>\<rparr>)
      | Some cc \<Rightarrow>
          (let table_in_schema = (normalize_table_name (target_table cc) \<in> set no_audit) in
           case table_exists env (target_table cc) (sent st) of
             (Inl e, s) \<Rightarrow> Inl (e, st\<lparr>sent := s\<rparr>)
           | (Inr table_found, s) \<Rightarrow>
               (let object_status = resolve_object_status cfg table_found table_in_schema;
                    st1 = st\<lparr>sent := s,
                             report := record_object_status (target_table cc) object_status
                                         (report st)\<rparr>
                in case (if \<not> table_found \<and> \<not> table_in_schema
                         then auto_create env rt cfg cc st1 else Inr st1) of
                     Inl x \<Rightarrow> Inl x
                   | Inr st2 \<Rightarrow>
                       (let table_found' = (table_found \<or> \<not> table_in_schema);
                            st3 = (if table_in_schema \<and> \<not> table_found'
                                   then st2\<lparr>report := (report st2)\<lparr>missing_tables_db :=
                                              insert (target_table cc)
                                                (missing_tables_db (report st2))\<rparr>\<rparr>
                                   else st2)
                        in process_documents L env rt cfg collection_name cc object_status
                             table_found' documents st3))))"



section \<open>An instance of the library\<close>

text \<open>
  A small instance of the library parameters, for the concrete examples below. It follows
  CPython on a fragment: \<open>strptime\<close> and \<open>strftime\<close> with the directives \<open>%Y %m %d %H %M %S\<close>
  and \<open>%%\<close>, and \<open>int\<close>, \<open>float\<close>, \<open>Decimal\<close> and \<open>str\<close> on plain integer numerals. Text outside
  the fragment is rejected here, which the real library does not always do; no general
  theorem depends on this instance.
\<close>

definition is_digit :: "char \<Rightarrow> bool" where
  "is_digit c = (let n = (of_char c :: nat) in 48 \<le> n \<and> n \<le> 57)"

definition digit_value :: "char \<Rightarrow> nat" where
  "digit_value c = of_char c - 48"

definition digit_char :: "nat \<Rightarrow> char" where
  "digit_char n = ''0123456789'' ! (n mod 10)"

fun digits :: "nat \<Rightarrow> string" where
  "digits n = (if n < 10 then [digit_char n] else digits (n div 10) @ [digit_char n])"

declare digits.simps [simp del]

definition two_digit :: "nat \<Rightarrow> string" where
  "two_digit n = [digit_char (n div 10), digit_char n]"

definition number_of_digits :: "string \<Rightarrow> nat" where
  "number_of_digits s = foldl (\<lambda>acc c. 10 * acc + digit_value c) 0 s"

subsection \<open>strptime\<close>

text \<open>
  The format becomes a sequence of items: a run of whitespace (the regular expression
  \<open>\s+\<close>), a directive, or a literal character (matched without regard to case). The
  items are matched from left to right with the alternatives of each directive in the
  order of CPython's regular expressions; the first complete match decides, and text left
  over after it is an error.
\<close>

datatype fmt_item = Literal char | Spaces | Directive char

fun tokens :: "string \<Rightarrow> fmt_item list option" where
  "tokens [] = Some []"
| "tokens [c] =
     (if c = CHR ''%'' then None
      else if is_space c then Some [Spaces] else Some [Literal c])"
| "tokens (c # d # rest) =
     (if c = CHR ''%'' then
        map_option ((#) (if d = CHR ''%'' then Literal d else Directive d)) (tokens rest)
      else map_option ((#) (if is_space c then Spaces else Literal c)) (tokens (d # rest)))"

fun collapse :: "fmt_item list \<Rightarrow> fmt_item list" where
  "collapse (Spaces # Spaces # rest) = collapse (Spaces # rest)"
| "collapse (x # rest) = x # collapse rest"
| "collapse [] = []"

fun directive_letters :: "fmt_item list \<Rightarrow> string" where
  "directive_letters [] = []"
| "directive_letters (Directive d # rest) = d # directive_letters rest"
| "directive_letters (x # rest) = directive_letters rest"

definition two_digits :: "(nat \<Rightarrow> nat \<Rightarrow> bool) \<Rightarrow> string \<Rightarrow> (nat \<times> string) list" where
  "two_digits ok s =
     (case s of
        a # b # rest \<Rightarrow>
          if is_digit a \<and> is_digit b \<and> ok (digit_value a) (digit_value b)
          then [(10 * digit_value a + digit_value b, rest)] else []
      | _ \<Rightarrow> [])"

definition one_digit :: "(nat \<Rightarrow> bool) \<Rightarrow> string \<Rightarrow> (nat \<times> string) list" where
  "one_digit ok s =
     (case s of
        a # rest \<Rightarrow> if is_digit a \<and> ok (digit_value a) then [(digit_value a, rest)] else []
      | _ \<Rightarrow> [])"

definition space_digit :: "string \<Rightarrow> (nat \<times> string) list" where
  "space_digit s =
     (case s of
        a # rest \<Rightarrow> if a = CHR '' '' then one_digit (\<lambda>x. 1 \<le> x) rest else []
      | _ \<Rightarrow> [])"

definition four_digits :: "string \<Rightarrow> (nat \<times> string) list" where
  "four_digits s =
     (if 4 \<le> length s \<and> list_all is_digit (take 4 s)
      then [(number_of_digits (take 4 s), drop 4 s)] else [])"

text \<open>The alternatives of a directive, in order; \<open>None\<close> for a letter outside the fragment.\<close>

definition alternatives :: "char \<Rightarrow> string \<Rightarrow> (nat \<times> string) list option" where
  "alternatives d s =
     (if d = CHR ''Y'' then Some (four_digits s)
      else if d = CHR ''m'' then
        Some (two_digits (\<lambda>a b. a = 1 \<and> b \<le> 2) s @ two_digits (\<lambda>a b. a = 0 \<and> 1 \<le> b) s
              @ one_digit (\<lambda>a. 1 \<le> a) s)
      else if d = CHR ''d'' then
        Some (two_digits (\<lambda>a b. a = 3 \<and> b \<le> 1) s @ two_digits (\<lambda>a b. 1 \<le> a \<and> a \<le> 2) s
              @ two_digits (\<lambda>a b. a = 0 \<and> 1 \<le> b) s @ one_digit (\<lambda>a. 1 \<le> a) s
              @ space_digit s)
      else if d = CHR ''H'' then
        Some (two_digits (\<lambda>a b. a = 2 \<and> b \<le> 3) s @ two_digits (\<lambda>a b. a \<le> 1) s
              @ one_digit (\<lambda>a. True) s)
      else if d = CHR ''M'' then
        Some (two_digits (\<lambda>a b. a \<le> 5) s @ one_digit (\<lambda>a. True) s)
      else if d = CHR ''S'' then
        Some (two_digits (\<lambda>a b. a = 6 \<and> b \<le> 1) s @ two_digits (\<lambda>a b. a \<le> 5) s
              @ one_digit (\<lambda>a. True) s)
      else None)"

definition set_field :: "char \<Rightarrow> nat \<Rightarrow> datetime \<Rightarrow> datetime" where
  "set_field d v dt =
     (if d = CHR ''Y'' then dt\<lparr>year := v\<rparr>
      else if d = CHR ''m'' then dt\<lparr>month := v\<rparr>
      else if d = CHR ''d'' then dt\<lparr>day := v\<rparr>
      else if d = CHR ''H'' then dt\<lparr>hour := v\<rparr>
      else if d = CHR ''M'' then dt\<lparr>minute := v\<rparr>
      else dt\<lparr>second := v\<rparr>)"

fun match_items :: "fmt_item list \<Rightarrow> string \<Rightarrow> datetime \<Rightarrow> (datetime \<times> string) list" where
  "match_items [] s dt = [(dt, s)]"
| "match_items (Literal c # items) s dt =
     (case s of
        [] \<Rightarrow> []
      | x # xs \<Rightarrow> if lower_char x = lower_char c then match_items items xs dt else [])"
| "match_items (Spaces # items) s dt =
     concat (map (\<lambda>k. match_items items (drop k s) dt)
               (rev [1 ..< Suc (length (takeWhile is_space s))]))"
| "match_items (Directive d # items) s dt =
     (case alternatives d s of
        None \<Rightarrow> []
      | Some alts \<Rightarrow> concat (map (\<lambda>(v, rest). match_items items rest (set_field d v dt)) alts))"

definition leap_year :: "nat \<Rightarrow> bool" where
  "leap_year y = (y mod 4 = 0 \<and> (y mod 100 \<noteq> 0 \<or> y mod 400 = 0))"

definition days_in_month :: "nat \<Rightarrow> nat \<Rightarrow> nat" where
  "days_in_month y m =
     (if m = 2 then (if leap_year y then 29 else 28)
      else if m \<in> {4, 6, 9, 11} then 30 else 31)"

definition valid_datetime :: "datetime \<Rightarrow> bool" where
  "valid_datetime dt =
     (1 \<le> year dt \<and> year dt \<le> 9999 \<and> 1 \<le> month dt \<and> month dt \<le> 12 \<and> 1 \<le> day dt \<and>
      day dt \<le> days_in_month (year dt) (month dt) \<and> hour dt \<le> 23 \<and> minute dt \<le> 59 \<and>
      second dt \<le> 59)"

definition strptime_fragment :: "string \<Rightarrow> string \<Rightarrow> exn + datetime" where
  "strptime_fragment s fmt =
     (case tokens fmt of
        None \<Rightarrow> Inl ValueError
      | Some ts \<Rightarrow>
          (let items = collapse ts in
           if \<not> list_all (\<lambda>d. alternatives d [] \<noteq> None) (directive_letters items)
           then Inl ValueError
           else if \<not> distinct (directive_letters items) then Inl PatternError
           else
             (case match_items items s
                     \<lparr>year = 1900, month = 1, day = 1, hour = 0, minute = 0, second = 0,
                      microsecond = 0\<rparr> of
                [] \<Rightarrow> Inl ValueError
              | (dt, rest) # others \<Rightarrow>
                  if rest \<noteq> [] then Inl ValueError
                  else if valid_datetime dt then Inr dt else Inl ValueError)))"

subsection \<open>strftime\<close>

definition directive_text :: "datetime \<Rightarrow> char \<Rightarrow> string option" where
  "directive_text dt d =
     (if d = CHR ''Y'' then Some (digits (year dt))
      else if d = CHR ''m'' then Some (two_digit (month dt))
      else if d = CHR ''d'' then Some (two_digit (day dt))
      else if d = CHR ''H'' then Some (two_digit (hour dt))
      else if d = CHR ''M'' then Some (two_digit (minute dt))
      else if d = CHR ''S'' then Some (two_digit (second dt))
      else if d = CHR ''%'' then Some ''%''
      else None)"

fun strftime_fragment :: "datetime \<Rightarrow> string \<Rightarrow> exn + string" where
  "strftime_fragment dt [] = Inr []"
| "strftime_fragment dt [c] = Inr [c]"
| "strftime_fragment dt (c # d # rest) =
     (if c = CHR ''%'' then
        (case directive_text dt d of
           None \<Rightarrow> Inl ValueError
         | Some t \<Rightarrow>
             (case strftime_fragment dt rest of Inl e \<Rightarrow> Inl e | Inr out \<Rightarrow> Inr (t @ out)))
      else
        (case strftime_fragment dt (d # rest) of Inl e \<Rightarrow> Inl e | Inr out \<Rightarrow> Inr (c # out)))"

subsection \<open>Numerals\<close>

definition int_numeral :: "string \<Rightarrow> int option" where
  "int_numeral s =
     (let t = strip s;
          negative = (t \<noteq> [] \<and> hd t = CHR ''-'');
          body = (if t \<noteq> [] \<and> (hd t = CHR ''-'' \<or> hd t = CHR ''+'') then tl t else t)
      in if body \<noteq> [] \<and> list_all is_digit body
         then Some (if negative then - int (number_of_digits body) else int (number_of_digits body))
         else None)"

fun print_value :: "pyval \<Rightarrow> string" where
  "print_value VNone = ''None''"
| "print_value (VBool b) = (if b then ''True'' else ''False'')"
| "print_value (VInt n) = (if n < 0 then CHR ''-'' # digits (nat (- n)) else digits (nat n))"
| "print_value (VStr s) = s"
| "print_value v = ''<value>''"

definition example_lib :: pylib where
  "example_lib =
     \<lparr>str_of = print_value,
      int_of_str = int_numeral,
      float_of_str = (\<lambda>s. case int_numeral s of
                            None \<Rightarrow> None
                          | Some n \<Rightarrow> (case float_of_int n of Inl e \<Rightarrow> None | Inr f \<Rightarrow> Some f)),
      decimal_of_str = (\<lambda>s. map_option (\<lambda>n. Decimal (n < 0) (nat \<bar>n\<bar>) 0) (int_numeral s)),
      strptime = strptime_fragment,
      strftime_date = (\<lambda>d. strftime_fragment (midnight d)),
      strftime_datetime = strftime_fragment\<rparr>"

section \<open>Example databases and configurations\<close>

text \<open>
  Instances of the database parameter and of the configuration, for the concrete examples
  below. \<open>quiet_db ts\<close> holds the tables \<open>ts\<close> and those created since, and raises
  nothing. \<open>broken_db ts\<close> is a server that drops the connection: an insert into a
  destination table raises, and so does the rollback that follows. \<open>rejecting_db ts\<close>
  refuses every insert into a destination table and raises nothing else.
\<close>

definition example_clock :: "nat \<Rightarrow> datetime" where
  "example_clock n =
     \<lparr>year = 2024, month = 1, day = 5, hour = 12, minute = n div 60 mod 60, second = n mod 60,
      microsecond = 0\<rparr>"

fun created :: "db_op list \<Rightarrow> (string \<times> string) list" where
  "created [] = []"
| "created (CreateTable schema table columns # rest) = (schema, table) # created rest"
| "created (op # rest) = created rest"

definition quiet_db :: "(string \<times> string) list \<Rightarrow> db_env" where
  "quiet_db ts =
     \<lparr>tables = (\<lambda>sent. ts @ created sent), failure = (\<lambda>sent op. None), now = example_clock\<rparr>"

fun dropped_connection :: "db_op \<Rightarrow> exn option" where
  "dropped_connection (Insert Business schema table row) =
     Some (OperationalError ''server closed the connection unexpectedly'')"
| "dropped_connection Rollback = Some (DatabaseError ''connection already closed'')"
| "dropped_connection op = None"

definition broken_db :: "(string \<times> string) list \<Rightarrow> db_env" where
  "broken_db ts =
     \<lparr>tables = (\<lambda>sent. ts @ created sent), failure = (\<lambda>sent. dropped_connection),
      now = example_clock\<rparr>"

fun rejected_insert :: "db_op \<Rightarrow> exn option" where
  "rejected_insert (Insert Business schema table row) =
     Some (DatabaseError ''value violates a constraint of the destination table'')"
| "rejected_insert op = None"

definition rejecting_db :: "(string \<times> string) list \<Rightarrow> db_env" where
  "rejecting_db ts =
     \<lparr>tables = (\<lambda>sent. ts @ created sent), failure = (\<lambda>sent. rejected_insert),
      now = example_clock\<rparr>"

definition example_audit :: "string \<Rightarrow> audit_config" where
  "example_audit schema =
     \<lparr>audit_table = schema @ ''.etl_audit'',
      audit_schema = Some schema,
      audit_columns =
        \<lparr>ingested_at_column = ''ingested_at'', object_id_column = ''object_id'',
         source_collection_column = ''source_collection'', object_name_column = ''object_name'',
         object_status_column = ''object_status'', missing_columns_column = ''missing_columns'',
         processing_status_column = ''processing_status''\<rparr>,
      business_columns =
        [(''ingested_at'', ''_ingested_at''), (''source_collection'', ''_source_collection''),
         (''status'', ''_status'')],
      business_column_types =
        [(''ingested_at'', ''TIMESTAMPTZ''), (''source_collection'', ''TEXT''),
         (''status'', ''TEXT'')],
      status_values =
        \<lparr>status_success = ''SUCCESS'', status_error = ''ERROR'', status_missing = ''MISSING''\<rparr>,
      object_status_values =
        \<lparr>object_new = ''NEW'', object_missing = ''MISSING'',
         object_already_exists = ''ALREADY_EXISTS''\<rparr>\<rparr>"

definition example_runtime :: runtime_config where
  "example_runtime =
     \<lparr>date_formats = [''%Y-%m-%d'', ''%d-%m-%Y''], date_output_format = ''%Y-%m-%d'',
      datetime_output_format = ''%Y-%m-%d %H:%M:%S'',
      type_mappings = [(''int'', ''BIGINT''), (''text'', ''TEXT''), (''date'', ''DATE'')]\<rparr>"

definition example_users :: collection_config where
  "example_users =
     \<lparr>target_table = ''public.users'', raw_json_column = ''raw'', object_id_attribute = ''id'',
      mappings =
        [(''id'', \<lparr>column = ''id'', type = ''int''\<rparr>),
         (''name'', \<lparr>column = ''name'', type = ''text''\<rparr>),
         (''joined'', \<lparr>column = ''joined'', type = ''date''\<rparr>)]\<rparr>"

definition example_document :: "(string \<times> pyval) list" where
  "example_document = [(''id'', VInt 1), (''name'', VStr ''Al''), (''joined'', VStr ''2024-01-05'')]"

definition empty_report :: pipeline_report where
  "empty_report =
     \<lparr>missing_collections = {}, unmapped_collections = {}, missing_tables_db = {},
      missing_tables_input = {}, processed_counts = (\<lambda>c. 0), error_counts = (\<lambda>c. 0),
      insert_failures = (\<lambda>c. 0), object_statuses = Map.empty,
      missing_columns_by_object = (\<lambda>t. {}), missing_columns_count = 0\<rparr>"

definition start_state :: run_state where
  "start_state = \<lparr>sent = [], report = empty_report, ticks = 0\<rparr>"

text \<open>Readers of the outcome of a run, whether it ended or an exception left it.\<close>

fun final_state :: "(exn \<times> run_state) + run_state \<Rightarrow> run_state" where
  "final_state (Inl (e, st)) = st"
| "final_state (Inr st) = st"

fun audit_rows :: "db_op list \<Rightarrow> (string \<times> outval) list list" where
  "audit_rows [] = []"
| "audit_rows (Insert Audit schema table row # rest) = row # audit_rows rest"
| "audit_rows (op # rest) = audit_rows rest"

fun business_rows :: "db_op list \<Rightarrow> (string \<times> outval) list list" where
  "business_rows [] = []"
| "business_rows (Insert Business schema table row # rest) = row # business_rows rest"
| "business_rows (op # rest) = business_rows rest"

fun is_create :: "db_op \<Rightarrow> bool" where
  "is_create (CreateTable schema table columns) = True"
| "is_create (CreateSchema schema) = True"
| "is_create op = False"

fun is_business_op :: "db_op \<Rightarrow> bool" where
  "is_business_op (Insert Business schema table row) = True"
| "is_business_op Rollback = True"
| "is_business_op op = False"

fun is_closing_op :: "db_op \<Rightarrow> bool" where
  "is_closing_op Commit = True"
| "is_closing_op Rollback = True"
| "is_closing_op op = False"

definition processing_status_of :: "audit_config \<Rightarrow> (string \<times> outval) list \<Rightarrow> outval option" where
  "processing_status_of cfg row = map_of row (processing_status_column (audit_columns cfg))"

text \<open>
  What the statements of the per-document loop may be: no create statement; and, when the
  destination table was not found, no insert into it, and only audit rows whose
  processing status is the configured value for a missing table.
\<close>

definition allowed_ops :: "audit_config \<Rightarrow> bool \<Rightarrow> db_op list \<Rightarrow> bool" where
  "allowed_ops cfg table_found ops =
     (filter is_create ops = [] \<and>
      (\<not> table_found \<longrightarrow>
         business_rows ops = [] \<and>
         list_all (\<lambda>row. processing_status_of cfg row =
                           Some (Val (VStr (status_missing (status_values cfg)))))
           (audit_rows ops)))"

section \<open>Properties of the transformer\<close>

lemma step_missing:
  "transform_step L d fs a b sa m acc = Inr acc' \<Longrightarrow>
   missing_columns acc' = missing_columns acc @ (if map_of d sa = None then [column m] else [])"
  by (auto simp: transform_step_def split: option.splits sum.splits if_splits prod.splits)

lemma step_untouched:
  "transform_step L d fs a b sa m acc = Inr acc' \<Longrightarrow> c \<noteq> column m \<Longrightarrow>
   map_of (transformed acc') c = map_of (transformed acc) c"
  by (auto simp: transform_step_def update_conv' split: option.splits sum.splits if_splits prod.splits)

lemma step_null:
  "transform_step L d fs a b sa m acc = Inr acc' \<Longrightarrow> map_of d sa = None \<Longrightarrow>
   map_of (transformed acc') (column m) = Some (Val VNone)"
  by (auto simp: transform_step_def update_conv' split: option.splits)

lemma step_no_error:
  "transform_step L d fs a b sa m acc = Inr acc' \<Longrightarrow>
   (\<And>v. map_of d sa = Some v \<Longrightarrow> \<exists>c e. transform_value L v (type m) fs a b = Inr (c, e) \<and> \<not> truthy_error e) \<Longrightarrow>
   errors acc' = errors acc"
  by (fastforce simp: transform_step_def split: option.splits sum.splits if_splits prod.splits)

lemma step_returns:
  "(\<And>v. map_of d sa = Some v \<Longrightarrow> \<exists>r. transform_value L v (type m) fs a b = Inr r) \<Longrightarrow>
   \<exists>acc'. transform_step L d fs a b sa m acc = Inr acc'"
  by (fastforce simp: transform_step_def split: option.splits sum.splits if_splits prod.splits)

lemma loop_missing:
  "transform_loop L d fs a b ms acc = Inr r \<Longrightarrow>
   missing_columns r =
     missing_columns acc @ map (\<lambda>(sa, m). column m) (filter (\<lambda>(sa, m). map_of d sa = None) ms)"
proof (induction ms arbitrary: acc)
  case Nil
  then show ?case by simp
next
  case (Cons p ms)
  obtain sa m where p: "p = (sa, m)" by (cases p)
  from Cons.prems obtain acc' where
    s: "transform_step L d fs a b sa m acc = Inr acc'" and
    l: "transform_loop L d fs a b ms acc' = Inr r"
    unfolding p by (auto split: sum.splits)
  show ?case
    using Cons.IH [OF l] step_missing [OF s] by (simp add: p)
qed

lemma loop_untouched:
  "transform_loop L d fs a b ms acc = Inr r \<Longrightarrow> c \<notin> set (map (\<lambda>(sa, m). column m) ms) \<Longrightarrow>
   map_of (transformed r) c = map_of (transformed acc) c"
proof (induction ms arbitrary: acc)
  case Nil
  then show ?case by simp
next
  case (Cons p ms)
  obtain sa m where p: "p = (sa, m)" by (cases p)
  from Cons.prems(1) obtain acc' where
    s: "transform_step L d fs a b sa m acc = Inr acc'" and
    l: "transform_loop L d fs a b ms acc' = Inr r"
    unfolding p by (auto split: sum.splits)
  from Cons.prems(2) have c: "c \<noteq> column m" "c \<notin> set (map (\<lambda>(sa, m). column m) ms)"
    unfolding p by simp_all
  show ?case
    using Cons.IH [OF l c(2)] step_untouched [OF s c(1)] by simp
qed

lemma loop_null:
  "transform_loop L d fs a b ms acc = Inr r \<Longrightarrow> distinct (map (\<lambda>(sa, m). column m) ms) \<Longrightarrow>
   (sa, m) \<in> set ms \<Longrightarrow> map_of d sa = None \<Longrightarrow>
   map_of (transformed r) (column m) = Some (Val VNone)"
proof (induction ms arbitrary: acc)
  case Nil
  then show ?case by simp
next
  case (Cons p ms)
  obtain sa' m' where p: "p = (sa', m')" by (cases p)
  from Cons.prems(1) obtain acc' where
    s: "transform_step L d fs a b sa' m' acc = Inr acc'" and
    l: "transform_loop L d fs a b ms acc' = Inr r"
    unfolding p by (auto split: sum.splits)
  from Cons.prems(2) have d: "column m' \<notin> set (map (\<lambda>(sa, m). column m) ms)"
    "distinct (map (\<lambda>(sa, m). column m) ms)"
    unfolding p by simp_all
  show ?case
  proof (cases "(sa, m) = (sa', m')")
    case True
    then have "map_of (transformed acc') (column m) = Some (Val VNone)"
      using step_null [OF s] Cons.prems(4) by simp
    moreover have "map_of (transformed r) (column m) = map_of (transformed acc') (column m)"
      using loop_untouched [OF l] d(1) True by simp
    ultimately show ?thesis by simp
  next
    case False
    then have "(sa, m) \<in> set ms" using Cons.prems(3) p by auto
    then show ?thesis using Cons.IH [OF l d(2) _ Cons.prems(4)] by simp
  qed
qed

lemma loop_no_error:
  "transform_loop L d fs a b ms acc = Inr r \<Longrightarrow>
   \<forall>(sa, m) \<in> set ms. \<forall>v. map_of d sa = Some v \<longrightarrow>
      (\<exists>c e. transform_value L v (type m) fs a b = Inr (c, e) \<and> \<not> truthy_error e) \<Longrightarrow>
   errors r = errors acc"
proof (induction ms arbitrary: acc)
  case Nil
  then show ?case by simp
next
  case (Cons p ms)
  obtain sa m where p: "p = (sa, m)" by (cases p)
  from Cons.prems(1) obtain acc' where
    s: "transform_step L d fs a b sa m acc = Inr acc'" and
    l: "transform_loop L d fs a b ms acc' = Inr r"
    unfolding p by (auto split: sum.splits)
  from Cons.prems(2) have
    h: "\<And>v. map_of d sa = Some v \<Longrightarrow>
          \<exists>c e. transform_value L v (type m) fs a b = Inr (c, e) \<and> \<not> truthy_error e" and
    t: "\<forall>(sa, m) \<in> set ms. \<forall>v. map_of d sa = Some v \<longrightarrow>
          (\<exists>c e. transform_value L v (type m) fs a b = Inr (c, e) \<and> \<not> truthy_error e)"
    unfolding p by simp_all
  have "errors acc' = errors acc"
    by (rule step_no_error [OF s]) (rule h)
  moreover have "errors r = errors acc'"
    by (rule Cons.IH [OF l t])
  ultimately show ?case by simp
qed

lemma loop_returns:
  "\<forall>(sa, m) \<in> set ms. \<forall>v. map_of d sa = Some v \<longrightarrow>
      (\<exists>r. transform_value L v (type m) fs a b = Inr r) \<Longrightarrow>
   \<exists>r. transform_loop L d fs a b ms acc = Inr r"
proof (induction ms arbitrary: acc)
  case Nil
  then show ?case by simp
next
  case (Cons p ms)
  obtain sa m where p: "p = (sa, m)" by (cases p)
  from Cons.prems have
    h: "\<And>v. map_of d sa = Some v \<Longrightarrow> \<exists>r. transform_value L v (type m) fs a b = Inr r" and
    t: "\<forall>(sa, m) \<in> set ms. \<forall>v. map_of d sa = Some v \<longrightarrow>
          (\<exists>r. transform_value L v (type m) fs a b = Inr r)"
    unfolding p by simp_all
  have "\<exists>acc'. transform_step L d fs a b sa m acc = Inr acc'"
    by (rule step_returns) (rule h)
  then obtain acc' where s: "transform_step L d fs a b sa m acc = Inr acc'" ..
  have "\<exists>r. transform_loop L d fs a b ms acc' = Inr r"
    by (rule Cons.IH [OF t])
  then show ?case using s p by simp
qed

text \<open>
  C10. For every target type name, supported or not, \<open>transform_value\<close> of a null value
  returns \<open>(None, None)\<close>: no type dispatch, no coercion error. The same unsupported type
  name with a value that is not null gives the unsupported-target-type error.
\<close>

theorem null_value_skips_dispatch:
  "(\<forall>L target_type fs dof dtof.
      transform_value L VNone target_type fs dof dtof = Inr (Val VNone, None)) \<and>
   (\<forall>L v target_type fs dof dtof.
      v \<noteq> VNone \<and> normalize_type target_type \<notin> SUPPORTED_TYPES \<longrightarrow>
      transform_value L v target_type fs dof dtof =
        Inr (Val VNone,
             Some (''unsupported target type '' @ [CHR 0x27] @ target_type @ [CHR 0x27])))"
  by (simp add: transform_value_def try_body_def SUPPORTED_TYPES_def)

theorem null_value_skips_dispatch_witness:
  "VInt 7 \<noteq> VNone \<and> normalize_type ''UUID '' \<notin> SUPPORTED_TYPES \<and>
   transform_value example_lib (VInt 7) ''UUID '' [''%Y-%m-%d''] ''%Y-%m-%d'' ''%Y-%m-%d'' =
     Inr (Val VNone, Some (''unsupported target type '' @ [CHR 0x27] @ ''UUID '' @ [CHR 0x27])) \<and>
   transform_value example_lib VNone ''UUID '' [''%Y-%m-%d''] ''%Y-%m-%d'' ''%Y-%m-%d'' =
     Inr (Val VNone, None)"
proof -
  have n: "normalize_type ''UUID '' = ''uuid''"
    by (simp add: normalize_type_def lower_def strip_def is_space_def lower_char_def is_upper_def)
  have h: "VInt 7 \<noteq> VNone \<and> normalize_type ''UUID '' \<notin> SUPPORTED_TYPES"
    by (simp add: n SUPPORTED_TYPES_def)
  show ?thesis
    using h null_value_skips_dispatch by blast
qed

text \<open>
  C1. The \<open>except\<close> clause of \<open>transform_value\<close> names \<open>ValueError\<close>, \<open>TypeError\<close> and
  \<open>InvalidOperation\<close>. \<open>int\<close> of an infinite float raises \<open>OverflowError\<close>, which is none of
  them: for the document \<open>{"qty": 1e999}\<close> (which \<open>json.load\<close> reads as infinity) and the
  mapping of \<open>qty\<close> to an integer column, \<open>transform_document\<close> returns no row, no error
  list and no missing columns; the exception leaves it.
\<close>

theorem transform_document_overflow_escapes:
  "transform_document L [(''qty'', VFloat PosInf)]
     [(''qty'', \<lparr>column = ''qty'', type = ''int''\<rparr>)] fs dof dtof = Inl OverflowError"
  by (simp add: transform_document_def transform_step_def transform_value_def try_body_def
      normalize_type_def lower_def strip_def is_space_def lower_char_def is_upper_def)

subsection \<open>normalize_boolean\<close>







subsection \<open>Absent keys and null values\<close>

text \<open>
  C5 as stated fails: the key \<open>a\<close> present with a null value gives an empty
  \<open>missing_columns\<close>, the same key absent gives \<open>["a"]\<close>.
\<close>

theorem null_value_is_not_missing:
  "transform_document example_lib [(''a'', VNone)] [(''a'', \<lparr>column = ''a'', type = ''text''\<rparr>)]
     [''%Y-%m-%d''] ''%Y-%m-%d'' ''%Y-%m-%d'' =
     Inr \<lparr>transformed = [(''a'', Val VNone)], missing_columns = [], errors = []\<rparr> \<and>
   transform_document example_lib [] [(''a'', \<lparr>column = ''a'', type = ''text''\<rparr>)]
     [''%Y-%m-%d''] ''%Y-%m-%d'' ''%Y-%m-%d'' =
     Inr \<lparr>transformed = [(''a'', Val VNone)], missing_columns = [''a''], errors = []\<rparr>"
  by (simp add: transform_document_def transform_step_def transform_value_def)

text \<open>
  C5, amended. Only an absent key is reported: whenever \<open>transform_document\<close> returns,
  \<open>missing_columns\<close> is the list of the target columns of the mapped attributes whose key
  is absent from the document, in the order of the mapping. For a key that is present
  with a null value the loop sets the column to null and adds nothing to
  \<open>missing_columns\<close> and nothing to \<open>errors\<close>.
\<close>

theorem missing_columns_are_absent_keys:
  "(\<forall>L document ms fs dof dtof r.
      transform_document L document ms fs dof dtof = Inr r \<longrightarrow>
      missing_columns r =
        map (\<lambda>(source_attr, m). column m)
          (filter (\<lambda>(source_attr, m). map_of document source_attr = None) ms)) \<and>
   (\<forall>L document fs dof dtof source_attr m acc.
      map_of document source_attr = Some VNone \<longrightarrow>
      transform_step L document fs dof dtof source_attr m acc =
        Inr (acc\<lparr>transformed := AList.update (column m) (Val VNone) (transformed acc)\<rparr>))"
proof -
  have 1: "missing_columns r =
        map (\<lambda>(source_attr, m). column m)
          (filter (\<lambda>(source_attr, m). map_of document source_attr = None) ms)"
    if "transform_document L document ms fs dof dtof = Inr r" for L document ms fs dof dtof r
    using loop_missing [of L document fs dof dtof ms _ r] that
    by (simp add: transform_document_def)
  have 2: "transform_step L document fs dof dtof source_attr m acc =
        Inr (acc\<lparr>transformed := AList.update (column m) (Val VNone) (transformed acc)\<rparr>)"
    if "map_of document source_attr = Some VNone" for L document fs dof dtof source_attr m acc
    using that by (simp add: transform_step_def transform_value_def)
  show ?thesis using 1 2 by blast
qed

theorem missing_columns_are_absent_keys_witness:
  "missing_columns
     \<lparr>transformed = [(''a'', Val VNone), (''b'', Val VNone)], missing_columns = [''b''],
      errors = []\<rparr> =
     map (\<lambda>(source_attr, m). column m)
       (filter (\<lambda>(source_attr, m). map_of [(''a'', VNone)] source_attr = None)
          [(''a'', \<lparr>column = ''a'', type = ''text''\<rparr>), (''b'', \<lparr>column = ''b'', type = ''int''\<rparr>)]) \<and>
   transform_step example_lib [(''a'', VNone)] [''%Y-%m-%d''] ''%Y-%m-%d'' ''%Y-%m-%d'' ''a''
     \<lparr>column = ''a'', type = ''text''\<rparr> \<lparr>transformed = [], missing_columns = [], errors = []\<rparr> =
     Inr \<lparr>transformed = [(''a'', Val VNone)], missing_columns = [], errors = []\<rparr>"
proof -
  have h1: "transform_document example_lib [(''a'', VNone)]
       [(''a'', \<lparr>column = ''a'', type = ''text''\<rparr>), (''b'', \<lparr>column = ''b'', type = ''int''\<rparr>)]
       [''%Y-%m-%d''] ''%Y-%m-%d'' ''%Y-%m-%d'' =
     Inr \<lparr>transformed = [(''a'', Val VNone), (''b'', Val VNone)], missing_columns = [''b''],
          errors = []\<rparr>"
    by (simp add: transform_document_def transform_step_def transform_value_def)
  have h2: "map_of [(''a'', VNone)] ''a'' = Some VNone" by simp
  have a: "missing_columns
     \<lparr>transformed = [(''a'', Val VNone), (''b'', Val VNone)], missing_columns = [''b''],
      errors = []\<rparr> =
     map (\<lambda>(source_attr, m). column m)
       (filter (\<lambda>(source_attr, m). map_of [(''a'', VNone)] source_attr = None)
          [(''a'', \<lparr>column = ''a'', type = ''text''\<rparr>), (''b'', \<lparr>column = ''b'', type = ''int''\<rparr>)])"
    using h1 missing_columns_are_absent_keys by blast
  have b: "transform_step example_lib [(''a'', VNone)] [''%Y-%m-%d''] ''%Y-%m-%d'' ''%Y-%m-%d'' ''a''
     \<lparr>column = ''a'', type = ''text''\<rparr> \<lparr>transformed = [], missing_columns = [], errors = []\<rparr> =
     Inr (\<lparr>transformed = [], missing_columns = [], errors = []\<rparr>
            \<lparr>transformed := AList.update (column \<lparr>column = ''a'', type = ''text''\<rparr>) (Val VNone)
               (transformed \<lparr>transformed = [], missing_columns = [], errors = []\<rparr>)\<rparr>)"
    using h2 missing_columns_are_absent_keys by blast
  from a b show ?thesis by simp
qed

subsection \<open>Table names\<close>





subsection \<open>ensure_database\<close>

text \<open>
  C6. With \<open>create_if_missing\<close> set to false, \<open>ensure_database\<close> returns at its first
  statement: whatever the server would answer, no connection is tried, nothing is raised.
  The \<open>raise LoadError\<close> for a missing database with auto-create disabled, further down in
  the function, is never reached.
\<close>

theorem ensure_database_disabled_returns:
  "ensure_database env
     \<lparr>host = ''localhost'', port = ''5432'', name = ''etl'', user = ''etl'', password = ''secret'',
      sslmode = None, create_if_missing = Some False, admin_db = None\<rparr> = (Inr (), [])"
  by (simp add: ensure_database_def)

subsection \<open>Date formats\<close>

lemma first_format_wins:
  "\<forall>g \<in> set pre. strptime L s g = Inl ValueError \<Longrightarrow> strptime L s f = Inr dt \<Longrightarrow>
   first_format L s (pre @ f # post) = Inr (Some dt)"
  by (induction pre) simp_all

lemma normalize_type_date: "normalize_type ''date'' = ''date''"
  by (simp add: normalize_type_def lower_def strip_def is_space_def lower_char_def is_upper_def)

text \<open>
  C8. A value that is already a date or a datetime is accepted by \<open>parse_date\<close> without
  any format being tried. For a string the formats are tried in list order and the first
  one that \<open>strptime\<close> accepts decides, whatever the later formats would give. With the
  formats \<open>["%Y-%m-%d", "%d-%m-%Y"]\<close> and the input \<open>"2024-01-05"\<close>, which \<open>strptime\<close> reads
  under the first format as 5 January 2024, \<open>transform_value\<close> returns that date printed
  with the configured output format; with the library fragment and the output format
  \<open>%d/%m/%Y\<close> this is \<open>"05/01/2024"\<close>.
\<close>

theorem date_formats_in_order:
  "(\<forall>L d fs. parse_date L (VDate d) fs = Inr (Some d)) \<and>
   (\<forall>L dt fs. parse_date L (VDateTime dt) fs = Inr (Some (date.truncate dt))) \<and>
   (\<forall>L s pre f post dt.
      (\<forall>g \<in> set pre. strptime L s g = Inl ValueError) \<and> strptime L s f = Inr dt \<longrightarrow>
      parse_date L (VStr s) (pre @ f # post) = Inr (Some (date.truncate dt))) \<and>
   (\<forall>L dof dtof out.
      strptime L ''2024-01-05'' ''%Y-%m-%d'' =
        Inr \<lparr>year = 2024, month = 1, day = 5, hour = 0, minute = 0, second = 0, microsecond = 0\<rparr> \<and>
      strftime_date L \<lparr>year = 2024, month = 1, day = 5\<rparr> dof = Inr out \<longrightarrow>
      transform_value L (VStr ''2024-01-05'') ''date'' [''%Y-%m-%d'', ''%d-%m-%Y''] dof dtof =
        Inr (Val (VStr out), None)) \<and>
   (\<forall>L d fs dof dtof out.
      strftime_date L d dof = Inr out \<longrightarrow>
      transform_value L (VDate d) ''date'' fs dof dtof = Inr (Val (VStr out), None)) \<and>
   (\<forall>L dt fs dof dtof out.
      strftime_date L (date.truncate dt) dof = Inr out \<longrightarrow>
      transform_value L (VDateTime dt) ''date'' fs dof dtof = Inr (Val (VStr out), None)) \<and>
   transform_value example_lib (VStr ''2024-01-05'') ''date'' [''%Y-%m-%d'', ''%d-%m-%Y'']
     ''%d/%m/%Y'' ''%Y-%m-%d %H:%M:%S'' = Inr (Val (VStr ''05/01/2024''), None)"
proof -
  have 3: "parse_date L (VStr s) (pre @ f # post) = Inr (Some (date.truncate dt))"
    if "\<forall>g \<in> set pre. strptime L s g = Inl ValueError" "strptime L s f = Inr dt"
    for L s pre f post dt
    using first_format_wins [OF that] by simp
  have 4: "transform_value L (VStr ''2024-01-05'') ''date'' [''%Y-%m-%d'', ''%d-%m-%Y''] dof dtof =
        Inr (Val (VStr out), None)"
    if "strptime L ''2024-01-05'' ''%Y-%m-%d'' =
        Inr \<lparr>year = 2024, month = 1, day = 5, hour = 0, minute = 0, second = 0, microsecond = 0\<rparr>"
      "strftime_date L \<lparr>year = 2024, month = 1, day = 5\<rparr> dof = Inr out"
    for L dof dtof out
    using that
    by (simp add: transform_value_def try_body_def normalize_type_date date.truncate_def)
  have 5: "transform_value L (VDate d) ''date'' fs dof dtof = Inr (Val (VStr out), None)"
    if "strftime_date L d dof = Inr out" for L d fs dof dtof out
    using that by (simp add: transform_value_def try_body_def normalize_type_date)
  have 6: "transform_value L (VDateTime dt) ''date'' fs dof dtof = Inr (Val (VStr out), None)"
    if "strftime_date L (date.truncate dt) dof = Inr out" for L dt fs dof dtof out
    using that by (simp add: transform_value_def try_body_def normalize_type_date)
  have 7: "transform_value example_lib (VStr ''2024-01-05'') ''date'' [''%Y-%m-%d'', ''%d-%m-%Y'']
     ''%d/%m/%Y'' ''%Y-%m-%d %H:%M:%S'' = Inr (Val (VStr ''05/01/2024''), None)"
    by code_simp
  show ?thesis using 3 4 5 6 7 by simp
qed

theorem date_formats_in_order_witness:
  "parse_date example_lib (VStr ''2024-01-05'') ([''%d-%m-%Y''] @ ''%Y-%m-%d'' # []) =
     Inr (Some \<lparr>year = 2024, month = 1, day = 5\<rparr>) \<and>
   transform_value example_lib (VStr ''2024-01-05'') ''date'' [''%Y-%m-%d'', ''%d-%m-%Y'']
     ''%Y-%m-%d'' ''%Y-%m-%d %H:%M:%S'' = Inr (Val (VStr ''2024-01-05''), None) \<and>
   transform_value example_lib (VDate \<lparr>year = 2024, month = 1, day = 5\<rparr>) ''date'' []
     ''%Y-%m-%d'' ''%Y-%m-%d %H:%M:%S'' = Inr (Val (VStr ''2024-01-05''), None) \<and>
   transform_value example_lib
     (VDateTime \<lparr>year = 2024, month = 1, day = 5, hour = 9, minute = 30, second = 0,
                 microsecond = 0\<rparr>) ''date'' []
     ''%Y-%m-%d'' ''%Y-%m-%d %H:%M:%S'' = Inr (Val (VStr ''2024-01-05''), None)"
proof -
  let ?dt = "\<lparr>year = 2024, month = 1, day = 5, hour = 0, minute = 0, second = 0, microsecond = 0\<rparr>"
  let ?dt9 = "\<lparr>year = 2024, month = 1, day = 5, hour = 9, minute = 30, second = 0, microsecond = 0\<rparr>"
  have p1: "\<forall>g \<in> set [''%d-%m-%Y'']. strptime example_lib ''2024-01-05'' g = Inl ValueError"
    by code_simp
  have p2: "strptime example_lib ''2024-01-05'' ''%Y-%m-%d'' = Inr ?dt"
    by code_simp
  have p3: "strftime_date example_lib \<lparr>year = 2024, month = 1, day = 5\<rparr> ''%Y-%m-%d'' =
              Inr ''2024-01-05''"
    by code_simp
  have p4: "strftime_date example_lib (date.truncate ?dt9) ''%Y-%m-%d'' = Inr ''2024-01-05''"
    by code_simp
  have a: "parse_date example_lib (VStr ''2024-01-05'') ([''%d-%m-%Y''] @ ''%Y-%m-%d'' # []) =
     Inr (Some (date.truncate ?dt))"
    by (rule date_formats_in_order [THEN conjunct2, THEN conjunct2, THEN conjunct1, rule_format])
      (rule conjI [OF p1 p2])
  have b: "transform_value example_lib (VStr ''2024-01-05'') ''date'' [''%Y-%m-%d'', ''%d-%m-%Y'']
     ''%Y-%m-%d'' ''%Y-%m-%d %H:%M:%S'' = Inr (Val (VStr ''2024-01-05''), None)"
    by (rule date_formats_in_order
          [THEN conjunct2, THEN conjunct2, THEN conjunct2, THEN conjunct1, rule_format])
      (rule conjI [OF p2 p3])
  have c: "transform_value example_lib (VDate \<lparr>year = 2024, month = 1, day = 5\<rparr>) ''date'' []
     ''%Y-%m-%d'' ''%Y-%m-%d %H:%M:%S'' = Inr (Val (VStr ''2024-01-05''), None)"
    by (rule date_formats_in_order
          [THEN conjunct2, THEN conjunct2, THEN conjunct2, THEN conjunct2, THEN conjunct1,
           rule_format])
      (rule p3)
  have d: "transform_value example_lib (VDateTime ?dt9) ''date'' []
     ''%Y-%m-%d'' ''%Y-%m-%d %H:%M:%S'' = Inr (Val (VStr ''2024-01-05''), None)"
    by (rule date_formats_in_order
          [THEN conjunct2, THEN conjunct2, THEN conjunct2, THEN conjunct2, THEN conjunct2,
           THEN conjunct1, rule_format])
      (rule p4)
  from a b c d show ?thesis by (simp add: date.truncate_def)
qed

section \<open>Properties of the orchestrator\<close>

subsection \<open>Statements sent by one document\<close>

lemma audit_rows_append: "audit_rows (a @ b) = audit_rows a @ audit_rows b"
  by (induction a rule: audit_rows.induct) simp_all

lemma business_rows_append: "business_rows (a @ b) = business_rows a @ business_rows b"
  by (induction a rule: business_rows.induct) simp_all

lemma update_not_empty: "AList.update k v al \<noteq> []"
  by (cases al) auto

lemma foldl_update_not_empty:
  "d \<noteq> [] \<Longrightarrow> foldl (\<lambda>acc (k, v). AList.update k v acc) d items \<noteq> []"
proof (induction items arbitrary: d)
  case Nil
  then show ?case by simp
next
  case (Cons x items)
  obtain k v where x: "x = (k, v)" by (cases x)
  show ?case
    unfolding x using Cons.IH [of "AList.update k v d"] by (simp add: update_not_empty)
qed

lemma store_items_not_empty: "d \<noteq> [] \<or> items \<noteq> [] \<Longrightarrow> store_items d items \<noteq> []"
proof (cases "d = []")
  case False
  then show ?thesis by (simp add: store_items_def foldl_update_not_empty)
next
  case True
  assume "d \<noteq> [] \<or> items \<noteq> []"
  with True obtain x rest where i: "items = x # rest" by (cases items) auto
  obtain k v where x: "x = (k, v)" by (cases x)
  show ?thesis
    unfolding store_items_def i x
    using foldl_update_not_empty [of "AList.update k v d" rest] by (simp add: update_not_empty)
qed

lemma build_audit_row_not_empty: "build_audit_row cfg i oid sc oname os ms ps \<noteq> []"
  by (simp add: build_audit_row_def Let_def store_items_not_empty)

lemma build_audit_row_status:
  "processing_status_of cfg (build_audit_row cfg i oid sc oname os ms ps) = Some (Val (VStr ps))"
  by (simp add: processing_status_of_def build_audit_row_def Let_def store_items_def update_conv')

lemma business_ops_quiet:
  "list_all is_business_op ops \<Longrightarrow> audit_rows ops = [] \<and> filter is_create ops = []"
  by (induction ops rule: audit_rows.induct) simp_all

lemma closing_ops_quiet:
  "list_all is_closing_op ops \<Longrightarrow>
   audit_rows ops = [] \<and> business_rows ops = [] \<and> filter is_create ops = []"
  by (induction ops rule: audit_rows.induct) simp_all

lemma insert_business_row_Inr:
  assumes "insert_business_row env cfg cname cc tf doc tr st = Inr (p, f, st')"
  shows "\<exists>ops. sent st' = sent st @ ops \<and> list_all is_business_op ops \<and>
           (\<not> tf \<longrightarrow> ops = [] \<and> p = status_missing (status_values cfg) \<and> f) \<and>
           report st' = report st \<and>
           (tf \<and> \<not> f \<longrightarrow> p = business_status cfg (errors tr) \<and>
              (\<exists>schema table row. ops = [Insert Business schema table row])) \<and>
           (tf \<and> f \<longrightarrow> p = status_error (status_values cfg))"
  using assms
  by (auto simp: insert_business_row_def insert_row_def execute_def rollback_def Let_def
      split: if_splits sum.splits prod.splits option.splits)

lemma insert_business_row_Inl:
  assumes "insert_business_row env cfg cname cc tf doc tr st = Inl (e, st')"
  shows "tf \<and> (\<exists>ops. sent st' = sent st @ ops \<and> list_all is_business_op ops) \<and>
         report st' = report st"
  using assms
  by (auto simp: insert_business_row_def insert_row_def execute_def rollback_def Let_def
      split: if_splits sum.splits prod.splits option.splits)

lemma insert_audit_row_sent:
  "\<exists>fin.
     sent (final_state (insert_audit_row L env cfg cname cc os doc tr p f st)) =
       sent st @
       Insert Audit (fst (split_table_name (audit_table cfg))) (snd (split_table_name (audit_table cfg)))
         (build_audit_row cfg (now env (ticks st)) (object_id_value L cc doc) (VStr cname)
            (target_table cc) os (missing_columns tr) p) # fin \<and>
     list_all is_closing_op fin"
  by (cases "split_table_name (audit_table cfg)")
    (auto simp: insert_audit_row_def insert_row_def execute_def rollback_def commit_def Let_def
      build_audit_row_not_empty split: option.splits)

lemma insert_audit_row_report:
  assumes "insert_audit_row L env cfg cname cc os doc tr p f st = Inr st'"
  shows "report st' = record_document cname (errors tr \<noteq> []) f (report st) \<or>
         report st' = record_document cname (errors tr \<noteq> []) True (report st)"
  using assms
  by (auto simp: insert_audit_row_def insert_row_def execute_def rollback_def commit_def Let_def
      build_audit_row_not_empty
      split: if_splits sum.splits prod.splits option.splits)

lemma allowed_ops_Nil: "allowed_ops cfg tf []"
  by (simp add: allowed_ops_def)


lemma insert_audit_row_keeps:
  "object_statuses (report (final_state (insert_audit_row L env cfg cname cc os doc tr p f st))) =
     object_statuses (report st) \<and>
   missing_tables_db (report (final_state (insert_audit_row L env cfg cname cc os doc tr p f st))) =
     missing_tables_db (report st)"
  by (cases "split_table_name (audit_table cfg)")
    (auto simp: insert_audit_row_def insert_row_def execute_def rollback_def commit_def Let_def
      build_audit_row_not_empty record_document_def split: option.splits)

lemma record_missing_columns_keeps:
  "object_statuses (record_missing_columns t ms r) = object_statuses r \<and>
   missing_tables_db (record_missing_columns t ms r) = missing_tables_db r \<and>
   insert_failures (record_missing_columns t ms r) = insert_failures r \<and>
   processed_counts (record_missing_columns t ms r) = processed_counts r"
  by (simp add: record_missing_columns_def)

text \<open>The outcome of one document, step by step.\<close>

lemma process_document_cases:
  obtains
    (transform_raised) e where
      "transform_document L doc (mappings cc) (date_formats rt) (date_output_format rt)
         (datetime_output_format rt) = Inl e"
      "process_document L env rt cfg cname cc os tf doc st = Inl (e, st)"
  | (business_raised) tr e st2 where
      "transform_document L doc (mappings cc) (date_formats rt) (date_output_format rt)
         (datetime_output_format rt) = Inr tr"
      "insert_business_row env cfg cname cc tf doc tr
         (st\<lparr>report := record_missing_columns (target_table cc) (missing_columns tr) (report st)\<rparr>) =
         Inl (e, st2)"
      "process_document L env rt cfg cname cc os tf doc st = Inl (e, st2)"
  | (audited) tr p f st2 where
      "transform_document L doc (mappings cc) (date_formats rt) (date_output_format rt)
         (datetime_output_format rt) = Inr tr"
      "insert_business_row env cfg cname cc tf doc tr
         (st\<lparr>report := record_missing_columns (target_table cc) (missing_columns tr) (report st)\<rparr>) =
         Inr (p, f, st2)"
      "process_document L env rt cfg cname cc os tf doc st =
         insert_audit_row L env cfg cname cc os doc tr p f st2"
proof (cases "transform_document L doc (mappings cc) (date_formats rt) (date_output_format rt)
         (datetime_output_format rt)")
  case (Inl e)
  then show ?thesis using transform_raised by (simp add: process_document_def)
next
  case (Inr tr)
  show ?thesis
  proof (cases "insert_business_row env cfg cname cc tf doc tr
         (st\<lparr>report := record_missing_columns (target_table cc) (missing_columns tr) (report st)\<rparr>)")
    case (Inl x)
    obtain e st2 where "x = (e, st2)" by (cases x)
    with Inl Inr show ?thesis using business_raised by (simp add: process_document_def Let_def)
  next
    case (Inr y)
    obtain p f st2 where "y = (p, f, st2)" by (cases y)
    with Inr \<open>transform_document L doc (mappings cc) (date_formats rt) (date_output_format rt)
         (datetime_output_format rt) = Inr tr\<close> show ?thesis
      using audited by (simp add: process_document_def Let_def)
  qed
qed

lemma process_document_Inr:
  assumes "process_document L env rt cfg cname cc os tf doc st = Inr st'"
  shows "\<exists>tr p biz fin.
           transform_document L doc (mappings cc) (date_formats rt) (date_output_format rt)
             (datetime_output_format rt) = Inr tr \<and>
           sent st' = sent st @ biz @
             Insert Audit (fst (split_table_name (audit_table cfg)))
               (snd (split_table_name (audit_table cfg)))
               (build_audit_row cfg (now env (ticks st + (if tf then 1 else 0)))
                  (object_id_value L cc doc) (VStr cname) (target_table cc) os
                  (missing_columns tr) p) # fin \<and>
           list_all is_business_op biz \<and> list_all is_closing_op fin \<and>
           (\<not> tf \<longrightarrow> biz = [] \<and> p = status_missing (status_values cfg) \<and>
              report st' = record_document cname (errors tr \<noteq> []) True
                  (record_missing_columns (target_table cc) (missing_columns tr) (report st)))"
proof (cases rule: process_document_cases [of L doc cc rt env cfg cname os tf st])
  case (transform_raised e)
  with assms show ?thesis by simp
next
  case (business_raised tr e st2)
  with assms show ?thesis by simp
next
  case (audited tr p f st2)
  let ?st1 = "st\<lparr>report := record_missing_columns (target_table cc) (missing_columns tr) (report st)\<rparr>"
  from insert_business_row_Inr [OF audited(2)] obtain biz where
    b: "sent st2 = sent st @ biz" "list_all is_business_op biz"
       "\<not> tf \<longrightarrow> biz = [] \<and> p = status_missing (status_values cfg) \<and> f"
       "report st2 = report ?st1"
    by auto
  have t: "ticks st2 = ticks st + (if tf then 1 else 0)"
    using audited(2)
    by (auto simp: insert_business_row_def insert_row_def execute_def rollback_def Let_def
        split: if_splits sum.splits prod.splits option.splits)
  from insert_audit_row_sent [of L env cfg cname cc os doc tr p f st2] obtain fin where
    a: "sent (final_state (insert_audit_row L env cfg cname cc os doc tr p f st2)) =
         sent st2 @
         Insert Audit (fst (split_table_name (audit_table cfg)))
           (snd (split_table_name (audit_table cfg)))
           (build_audit_row cfg (now env (ticks st2)) (object_id_value L cc doc) (VStr cname)
              (target_table cc) os (missing_columns tr) p) # fin"
       "list_all is_closing_op fin"
    by auto
  from assms audited(3) have r: "insert_audit_row L env cfg cname cc os doc tr p f st2 = Inr st'"
    by simp
  have rep: "\<not> tf \<longrightarrow> report st' = record_document cname (errors tr \<noteq> []) True
                  (record_missing_columns (target_table cc) (missing_columns tr) (report st))"
    using insert_audit_row_report [OF r] b(3,4) by auto
  show ?thesis
    using audited(1) a b t r rep by (intro exI [of _ tr] exI [of _ p] exI [of _ biz] exI [of _ fin]) simp
qed

lemma process_document_any:
  "\<exists>ops. sent (final_state (process_document L env rt cfg cname cc os tf doc st)) = sent st @ ops \<and>
         allowed_ops cfg tf ops \<and> length (audit_rows ops) \<le> 1 \<and>
         object_statuses (report (final_state (process_document L env rt cfg cname cc os tf doc st))) =
           object_statuses (report st) \<and>
         missing_tables_db (report (final_state (process_document L env rt cfg cname cc os tf doc st))) =
           missing_tables_db (report st)"
proof (cases rule: process_document_cases [of L doc cc rt env cfg cname os tf st])
  case (transform_raised e)
  then show ?thesis by (simp add: allowed_ops_Nil)
next
  case (business_raised tr e st2)
  from insert_business_row_Inl [OF business_raised(2)] obtain biz where
    b: "tf" "sent st2 = sent st @ biz" "list_all is_business_op biz"
       "report st2 = record_missing_columns (target_table cc) (missing_columns tr) (report st)"
    by auto
  show ?thesis
    using business_raised(3) b business_ops_quiet [OF b(3)]
    by (simp add: allowed_ops_def record_missing_columns_keeps)
next
  case (audited tr p f st2)
  from insert_business_row_Inr [OF audited(2)] obtain biz where
    b: "sent st2 = sent st @ biz" "list_all is_business_op biz"
       "\<not> tf \<longrightarrow> biz = [] \<and> p = status_missing (status_values cfg) \<and> f"
       "report st2 = record_missing_columns (target_table cc) (missing_columns tr) (report st)"
    by auto
  from insert_audit_row_sent [of L env cfg cname cc os doc tr p f st2] obtain fin where
    a: "sent (final_state (insert_audit_row L env cfg cname cc os doc tr p f st2)) =
         sent st2 @
         Insert Audit (fst (split_table_name (audit_table cfg)))
           (snd (split_table_name (audit_table cfg)))
           (build_audit_row cfg (now env (ticks st2)) (object_id_value L cc doc) (VStr cname)
              (target_table cc) os (missing_columns tr) p) # fin"
       "list_all is_closing_op fin"
    by auto
  let ?ops = "biz @ Insert Audit (fst (split_table_name (audit_table cfg)))
           (snd (split_table_name (audit_table cfg)))
           (build_audit_row cfg (now env (ticks st2)) (object_id_value L cc doc) (VStr cname)
              (target_table cc) os (missing_columns tr) p) # fin"
  have 1: "sent (final_state (process_document L env rt cfg cname cc os tf doc st)) = sent st @ ?ops"
    using audited(3) a(1) b(1) by simp
  have 2: "audit_rows ?ops = [build_audit_row cfg (now env (ticks st2)) (object_id_value L cc doc)
              (VStr cname) (target_table cc) os (missing_columns tr) p]"
    using business_ops_quiet [OF b(2)] closing_ops_quiet [OF a(2)]
    by (simp add: audit_rows_append)
  have 3: "filter is_create ?ops = []"
    using business_ops_quiet [OF b(2)] closing_ops_quiet [OF a(2)] by simp
  have 4: "\<not> tf \<longrightarrow> business_rows ?ops = []"
    using b(3) closing_ops_quiet [OF a(2)] by (simp add: business_rows_append)
  have 5: "\<not> tf \<longrightarrow> list_all (\<lambda>row. processing_status_of cfg row =
                           Some (Val (VStr (status_missing (status_values cfg))))) (audit_rows ?ops)"
    unfolding 2 using b(3) by (simp add: build_audit_row_status)
  have 6: "allowed_ops cfg tf ?ops"
    unfolding allowed_ops_def using 3 4 5 by blast
  show ?thesis
    using 1 2 6 audited(3) insert_audit_row_keeps [of L env cfg cname cc os doc tr p f st2] b(4)
    by (intro exI [of _ ?ops]) (simp add: record_missing_columns_keeps)
qed

subsection \<open>The loop over the documents\<close>

lemma process_documents_Inr:
  "process_documents L env rt cfg cname cc os tf docs st = Inr st' \<Longrightarrow>
   \<exists>ops. sent st' = sent st @ ops \<and> length (audit_rows ops) = length docs \<and>
         (\<not> tf \<longrightarrow> insert_failures (report st') cname =
                      insert_failures (report st) cname + length docs \<and>
                    processed_counts (report st') = processed_counts (report st))"
proof (induction docs arbitrary: st)
  case Nil
  then show ?case by simp
next
  case (Cons doc docs)
  from Cons.prems obtain st1 where
    d: "process_document L env rt cfg cname cc os tf doc st = Inr st1" and
    r: "process_documents L env rt cfg cname cc os tf docs st1 = Inr st'"
    by (auto split: sum.splits)
  let ?B = "\<lambda>tr p biz fin.
           transform_document L doc (mappings cc) (date_formats rt) (date_output_format rt)
             (datetime_output_format rt) = Inr tr \<and>
           sent st1 = sent st @ biz @
             Insert Audit (fst (split_table_name (audit_table cfg)))
               (snd (split_table_name (audit_table cfg)))
               (build_audit_row cfg (now env (ticks st + (if tf then 1 else 0)))
                  (object_id_value L cc doc) (VStr cname) (target_table cc) os
                  (missing_columns tr) p) # fin \<and>
           list_all is_business_op biz \<and> list_all is_closing_op fin \<and>
           (\<not> tf \<longrightarrow> biz = [] \<and> p = status_missing (status_values cfg) \<and>
              report st1 = record_document cname (errors tr \<noteq> []) True
                  (record_missing_columns (target_table cc) (missing_columns tr) (report st)))"
  have "\<exists>tr p biz fin. ?B tr p biz fin" by (rule process_document_Inr [OF d])
  then obtain tr where "\<exists>p biz fin. ?B tr p biz fin" ..
  then obtain p where "\<exists>biz fin. ?B tr p biz fin" ..
  then obtain biz where "\<exists>fin. ?B tr p biz fin" ..
  then obtain fin where B: "?B tr p biz fin" ..
  from B have
    1: "sent st1 = sent st @ biz @
             Insert Audit (fst (split_table_name (audit_table cfg)))
               (snd (split_table_name (audit_table cfg)))
               (build_audit_row cfg (now env (ticks st + (if tf then 1 else 0)))
                  (object_id_value L cc doc) (VStr cname) (target_table cc) os
                  (missing_columns tr) p) # fin"
       "list_all is_business_op biz" "list_all is_closing_op fin"
       "\<not> tf \<longrightarrow> report st1 = record_document cname (errors tr \<noteq> []) True
                  (record_missing_columns (target_table cc) (missing_columns tr) (report st))"
    by blast+
  from Cons.IH [OF r] obtain ops where
    2: "sent st' = sent st1 @ ops" "length (audit_rows ops) = length docs"
       "\<not> tf \<longrightarrow> insert_failures (report st') cname =
                      insert_failures (report st1) cname + length docs \<and>
                    processed_counts (report st') = processed_counts (report st1)"
    by blast
  let ?new = "(biz @
             Insert Audit (fst (split_table_name (audit_table cfg)))
               (snd (split_table_name (audit_table cfg)))
               (build_audit_row cfg (now env (ticks st + (if tf then 1 else 0)))
                  (object_id_value L cc doc) (VStr cname) (target_table cc) os
                  (missing_columns tr) p) # fin) @ ops"
  have a: "sent st' = sent st @ ?new" using 1(1) 2(1) by simp
  have b: "length (audit_rows ?new) = length (doc # docs)"
    using business_ops_quiet [OF 1(2)] closing_ops_quiet [OF 1(3)] 2(2)
    by (simp add: audit_rows_append)
  have c: "\<not> tf \<longrightarrow> insert_failures (report st') cname =
                      insert_failures (report st) cname + length (doc # docs) \<and>
                    processed_counts (report st') = processed_counts (report st)"
    using 1(4) 2(3) by (simp add: record_document_def record_missing_columns_keeps)
  show ?case using a b c by blast
qed


subsection \<open>Documents whose transformation returns\<close>

lemma build_business_audit_fields_Inr:
  "business_columns_validated cfg \<Longrightarrow>
   \<exists>business_fields. build_business_audit_fields cfg i cname s = Inr business_fields"
  by (auto simp: business_columns_validated_def build_business_audit_fields_def getitem_def
      split: option.splits)

text \<open>
  The insert into the destination table, when the configuration is validated and the
  rollback of a failed insert does not raise: the three ways it can go.
\<close>

lemma insert_business_row_outcome:
  assumes v: "business_columns_validated cfg"
    and rb: "\<forall>row. failure env
               (sent st @ [Insert Business (fst (split_table_name (target_table cc)))
                             (snd (split_table_name (target_table cc))) row])
               Rollback = None"
  shows "\<exists>p f st2 biz.
           insert_business_row env cfg cname cc tf doc tr st = Inr (p, f, st2) \<and>
           sent st2 = sent st @ biz \<and> ticks st2 = ticks st + (if tf then 1 else 0) \<and>
           report st2 = report st \<and> list_all is_business_op biz \<and>
           (\<not> tf \<longrightarrow> biz = [] \<and> p = status_missing (status_values cfg) \<and> f) \<and>
           (tf \<longrightarrow>
              (\<exists>row.
                 (failure env (sent st)
                    (Insert Business (fst (split_table_name (target_table cc)))
                       (snd (split_table_name (target_table cc))) row) = None \<and>
                  biz = [Insert Business (fst (split_table_name (target_table cc)))
                           (snd (split_table_name (target_table cc))) row] \<and>
                  p = business_status cfg (errors tr) \<and> \<not> f) \<or>
                 (failure env (sent st)
                    (Insert Business (fst (split_table_name (target_table cc)))
                       (snd (split_table_name (target_table cc))) row) \<noteq> None \<and>
                  biz = [Insert Business (fst (split_table_name (target_table cc)))
                           (snd (split_table_name (target_table cc))) row, Rollback] \<and>
                  p = status_error (status_values cfg) \<and> f)))"
proof (cases tf)
  case False
  then show ?thesis by (auto simp: insert_business_row_def)
next
  case True
  from build_business_audit_fields_Inr [OF v] obtain business_fields where
    b: "build_business_audit_fields cfg (now env (ticks st)) cname
          (business_status cfg (errors tr)) = Inr business_fields"
    by blast
  let ?row = "store_items (transformed tr) ((raw_json_column cc, Val (VDict doc)) # business_fields)"
  let ?ins = "Insert Business (fst (split_table_name (target_table cc)))
                (snd (split_table_name (target_table cc))) ?row"
  have n: "?row \<noteq> []" by (simp add: store_items_not_empty)
  show ?thesis
  proof (cases "failure env (sent st) ?ins")
    case None
    have "insert_business_row env cfg cname cc tf doc tr st =
            Inr (business_status cfg (errors tr), False,
                 st\<lparr>ticks := ticks st + 1, sent := sent st @ [?ins]\<rparr>)"
      using True b n None
      by (cases "split_table_name (target_table cc)")
        (simp add: insert_business_row_def insert_row_def execute_def Let_def)
    then show ?thesis using True None by simp blast
  next
    case (Some e)
    from rb have r: "failure env (sent st @ [?ins]) Rollback = None" by blast
    have "insert_business_row env cfg cname cc tf doc tr st =
            Inr (status_error (status_values cfg), True,
                 st\<lparr>ticks := ticks st + 1, sent := sent st @ [?ins, Rollback]\<rparr>)"
      using True b n Some r
      by (cases "split_table_name (target_table cc)")
        (simp add: insert_business_row_def insert_row_def execute_def rollback_def Let_def)
    then show ?thesis using True Some by simp blast
  qed
qed

lemma insert_audit_row_returns:
  assumes "\<forall>s. failure env s Rollback = None"
  shows "\<exists>st'. insert_audit_row L env cfg cname cc os doc tr p f st = Inr st'"
  using assms
  by (cases "split_table_name (audit_table cfg)")
    (auto simp: insert_audit_row_def insert_row_def execute_def rollback_def commit_def Let_def
      build_audit_row_not_empty split: option.splits)

text \<open>One iteration of the per-document loop, for a document whose transformation returns.\<close>

lemma process_document_outcome:
  assumes t: "transform_document L doc (mappings cc) (date_formats rt) (date_output_format rt)
                (datetime_output_format rt) = Inr tr"
    and v: "business_columns_validated cfg"
    and rb: "\<forall>row. failure env
               (sent st @ [Insert Business (fst (split_table_name (target_table cc)))
                             (snd (split_table_name (target_table cc))) row])
               Rollback = None"
  shows "\<exists>p biz fin.
           sent (final_state (process_document L env rt cfg cname cc os tf doc st)) =
             sent st @ biz @
             [Insert Audit (fst (split_table_name (audit_table cfg)))
                (snd (split_table_name (audit_table cfg)))
                (build_audit_row cfg (now env (ticks st + (if tf then 1 else 0)))
                   (object_id_value L cc doc) (VStr cname) (target_table cc) os
                   (missing_columns tr) p)] @ fin \<and>
           list_all is_business_op biz \<and> list_all is_closing_op fin \<and>
           (\<not> tf \<longrightarrow> biz = [] \<and> p = status_missing (status_values cfg)) \<and>
           (tf \<longrightarrow>
              (\<exists>row.
                 (failure env (sent st)
                    (Insert Business (fst (split_table_name (target_table cc)))
                       (snd (split_table_name (target_table cc))) row) = None \<and>
                  biz = [Insert Business (fst (split_table_name (target_table cc)))
                           (snd (split_table_name (target_table cc))) row] \<and>
                  p = business_status cfg (errors tr)) \<or>
                 (failure env (sent st)
                    (Insert Business (fst (split_table_name (target_table cc)))
                       (snd (split_table_name (target_table cc))) row) \<noteq> None \<and>
                  biz = [Insert Business (fst (split_table_name (target_table cc)))
                           (snd (split_table_name (target_table cc))) row, Rollback] \<and>
                  p = status_error (status_values cfg))))"
proof -
  let ?st1 = "st\<lparr>report := record_missing_columns (target_table cc) (missing_columns tr) (report st)\<rparr>"
  from rb have rb1: "\<forall>row. failure env
               (sent ?st1 @ [Insert Business (fst (split_table_name (target_table cc)))
                             (snd (split_table_name (target_table cc))) row])
               Rollback = None"
    by simp
  let ?B = "\<lambda>p f st2 biz.
           insert_business_row env cfg cname cc tf doc tr ?st1 = Inr (p, f, st2) \<and>
           sent st2 = sent ?st1 @ biz \<and> ticks st2 = ticks ?st1 + (if tf then 1 else 0) \<and>
           report st2 = report ?st1 \<and> list_all is_business_op biz \<and>
           (\<not> tf \<longrightarrow> biz = [] \<and> p = status_missing (status_values cfg) \<and> f) \<and>
           (tf \<longrightarrow>
              (\<exists>row.
                 (failure env (sent ?st1)
                    (Insert Business (fst (split_table_name (target_table cc)))
                       (snd (split_table_name (target_table cc))) row) = None \<and>
                  biz = [Insert Business (fst (split_table_name (target_table cc)))
                           (snd (split_table_name (target_table cc))) row] \<and>
                  p = business_status cfg (errors tr) \<and> \<not> f) \<or>
                 (failure env (sent ?st1)
                    (Insert Business (fst (split_table_name (target_table cc)))
                       (snd (split_table_name (target_table cc))) row) \<noteq> None \<and>
                  biz = [Insert Business (fst (split_table_name (target_table cc)))
                           (snd (split_table_name (target_table cc))) row, Rollback] \<and>
                  p = status_error (status_values cfg) \<and> f)))"
  have "\<exists>p f st2 biz. ?B p f st2 biz" by (rule insert_business_row_outcome [OF v rb1])
  then obtain p where "\<exists>f st2 biz. ?B p f st2 biz" ..
  then obtain f where "\<exists>st2 biz. ?B p f st2 biz" ..
  then obtain st2 where "\<exists>biz. ?B p f st2 biz" ..
  then obtain biz where B: "?B p f st2 biz" ..
  from B have i: "insert_business_row env cfg cname cc tf doc tr ?st1 = Inr (p, f, st2)"
    and s: "sent st2 = sent st @ biz" and k: "ticks st2 = ticks st + (if tf then 1 else 0)"
    and l: "list_all is_business_op biz"
    by simp_all
  from B have m: "\<not> tf \<longrightarrow> biz = [] \<and> p = status_missing (status_values cfg)"
    by blast
  from B have c: "tf \<longrightarrow>
              (\<exists>row.
                 (failure env (sent st)
                    (Insert Business (fst (split_table_name (target_table cc)))
                       (snd (split_table_name (target_table cc))) row) = None \<and>
                  biz = [Insert Business (fst (split_table_name (target_table cc)))
                           (snd (split_table_name (target_table cc))) row] \<and>
                  p = business_status cfg (errors tr)) \<or>
                 (failure env (sent st)
                    (Insert Business (fst (split_table_name (target_table cc)))
                       (snd (split_table_name (target_table cc))) row) \<noteq> None \<and>
                  biz = [Insert Business (fst (split_table_name (target_table cc)))
                           (snd (split_table_name (target_table cc))) row, Rollback] \<and>
                  p = status_error (status_values cfg)))"
    by simp blast
  have d: "process_document L env rt cfg cname cc os tf doc st =
             insert_audit_row L env cfg cname cc os doc tr p f st2"
    using t i by (simp add: process_document_def Let_def)
  from insert_audit_row_sent [of L env cfg cname cc os doc tr p f st2] obtain fin where
    a: "sent (final_state (insert_audit_row L env cfg cname cc os doc tr p f st2)) =
         sent st2 @
         Insert Audit (fst (split_table_name (audit_table cfg)))
           (snd (split_table_name (audit_table cfg)))
           (build_audit_row cfg (now env (ticks st2)) (object_id_value L cc doc) (VStr cname)
              (target_table cc) os (missing_columns tr) p) # fin"
       "list_all is_closing_op fin"
    by auto
  have e: "sent (final_state (process_document L env rt cfg cname cc os tf doc st)) =
             sent st @ biz @
             [Insert Audit (fst (split_table_name (audit_table cfg)))
                (snd (split_table_name (audit_table cfg)))
                (build_audit_row cfg (now env (ticks st + (if tf then 1 else 0)))
                   (object_id_value L cc doc) (VStr cname) (target_table cc) os
                   (missing_columns tr) p)] @ fin"
    unfolding d a(1) s k by simp
  show ?thesis
    using e l a(2) m c by (intro exI [of _ p] exI [of _ biz] exI [of _ fin] conjI)
qed

lemma process_document_returns:
  assumes t: "transform_document L doc (mappings cc) (date_formats rt) (date_output_format rt)
                (datetime_output_format rt) = Inr tr"
    and v: "business_columns_validated cfg"
    and rb: "\<forall>s. failure env s Rollback = None"
  shows "\<exists>st'. process_document L env rt cfg cname cc os tf doc st = Inr st'"
proof -
  let ?st1 = "st\<lparr>report := record_missing_columns (target_table cc) (missing_columns tr) (report st)\<rparr>"
  from rb have rb1: "\<forall>row. failure env
               (sent ?st1 @ [Insert Business (fst (split_table_name (target_table cc)))
                             (snd (split_table_name (target_table cc))) row])
               Rollback = None"
    by blast
  from insert_business_row_outcome [OF v rb1, where cname = cname and tf = tf and doc = doc and tr = tr] obtain p f st2 where
    i: "insert_business_row env cfg cname cc tf doc tr ?st1 = Inr (p, f, st2)"
    by blast
  have d: "process_document L env rt cfg cname cc os tf doc st =
             insert_audit_row L env cfg cname cc os doc tr p f st2"
    using t i by (simp add: process_document_def Let_def)
  show ?thesis unfolding d by (rule insert_audit_row_returns [OF rb])
qed

lemma process_documents_returns:
  assumes v: "business_columns_validated cfg"
    and rb: "\<forall>s. failure env s Rollback = None"
  shows "list_all (\<lambda>doc. \<not> isl (transform_document L doc (mappings cc) (date_formats rt)
                                  (date_output_format rt) (datetime_output_format rt))) docs \<Longrightarrow>
         \<exists>st' ops. process_documents L env rt cfg cname cc os tf docs st = Inr st' \<and>
                   sent st' = sent st @ ops \<and> length (audit_rows ops) = length docs"
proof (induction docs arbitrary: st)
  case Nil
  show ?case by simp
next
  case (Cons doc docs)
  from Cons.prems obtain tr where
    t: "transform_document L doc (mappings cc) (date_formats rt) (date_output_format rt)
          (datetime_output_format rt) = Inr tr"
    by (cases "transform_document L doc (mappings cc) (date_formats rt) (date_output_format rt)
          (datetime_output_format rt)") simp_all
  from Cons.prems have rest: "list_all (\<lambda>doc. \<not> isl (transform_document L doc (mappings cc)
          (date_formats rt) (date_output_format rt) (datetime_output_format rt))) docs"
    by simp
  from process_document_returns [OF t v rb] obtain st1 where
    d: "process_document L env rt cfg cname cc os tf doc st = Inr st1"
    by blast
  from Cons.IH [OF rest, of st1] obtain st' where
    r: "process_documents L env rt cfg cname cc os tf docs st1 = Inr st'"
    by blast
  have e: "process_documents L env rt cfg cname cc os tf (doc # docs) st = Inr st'"
    using d r by simp
  from process_documents_Inr [OF e] obtain ops where
    "sent st' = sent st @ ops" "length (audit_rows ops) = length (doc # docs)"
    by blast
  with e show ?case by blast
qed

text \<open>
  C3 as stated fails: when the insert into the destination table raises and the rollback
  in the handler raises too (a dropped connection), the exception leaves the loop before
  the audit row is built. The document was iterated, its insert was attempted, and no
  audit insert was.
\<close>

theorem failed_rollback_skips_audit:
  "isl (process_document example_lib (broken_db [(''public'', ''users'')]) example_runtime
          (example_audit ''audit'') ''users'' example_users ''ALREADY_EXISTS'' True
          example_document start_state) \<and>
   length (business_rows (sent (final_state
     (process_document example_lib (broken_db [(''public'', ''users'')]) example_runtime
          (example_audit ''audit'') ''users'' example_users ''ALREADY_EXISTS'' True
          example_document start_state)))) = 1 \<and>
   audit_rows (sent (final_state
     (process_document example_lib (broken_db [(''public'', ''users'')]) example_runtime
          (example_audit ''audit'') ''users'' example_users ''ALREADY_EXISTS'' True
          example_document start_state))) = []"
  by code_simp

text \<open>
  C3, amended. Take a document whose transformation returns, under a configuration that
  passed \<open>validate_app_config\<close>. If the rollback that follows a failed insert into the
  destination table does not raise, exactly one audit-row insert is attempted for the
  document, whatever the insert into the destination table and the audit insert
  themselves do: the statements of the iteration are those of the insert into the
  destination table (none when the table was missing), then one insert of the row built
  by \<open>build_audit_row\<close> into the audit table, then commit or rollback, and none of the
  statements before or after it is an audit insert. If no rollback raises at all, the
  iteration returns, and the loop over a list of such documents returns and has
  attempted as many audit inserts as there are documents. Whatever happens, one
  iteration attempts at most one audit insert.
\<close>

theorem one_audit_insert_per_document:
  "(\<forall>L env rt cfg cname cc os tf doc st tr.
      transform_document L doc (mappings cc) (date_formats rt) (date_output_format rt)
        (datetime_output_format rt) = Inr tr \<and>
      business_columns_validated cfg \<and>
      (\<forall>row. failure env
               (sent st @ [Insert Business (fst (split_table_name (target_table cc)))
                             (snd (split_table_name (target_table cc))) row])
               Rollback = None) \<longrightarrow>
      (\<exists>p biz fin.
         sent (final_state (process_document L env rt cfg cname cc os tf doc st)) =
           sent st @ biz @
           [Insert Audit (fst (split_table_name (audit_table cfg)))
              (snd (split_table_name (audit_table cfg)))
              (build_audit_row cfg (now env (ticks st + (if tf then 1 else 0)))
                 (object_id_value L cc doc) (VStr cname) (target_table cc) os
                 (missing_columns tr) p)] @ fin \<and>
         list_all is_business_op biz \<and> audit_rows biz = [] \<and>
         list_all is_closing_op fin \<and> audit_rows fin = [])) \<and>
   (\<forall>L env rt cfg cname cc os tf doc st tr.
      transform_document L doc (mappings cc) (date_formats rt) (date_output_format rt)
        (datetime_output_format rt) = Inr tr \<and>
      business_columns_validated cfg \<and>
      (\<forall>s. failure env s Rollback = None) \<longrightarrow>
      (\<exists>st'. process_document L env rt cfg cname cc os tf doc st = Inr st')) \<and>
   (\<forall>L env rt cfg cname cc os tf docs st.
      list_all (\<lambda>doc. \<not> isl (transform_document L doc (mappings cc) (date_formats rt)
                               (date_output_format rt) (datetime_output_format rt))) docs \<and>
      business_columns_validated cfg \<and>
      (\<forall>s. failure env s Rollback = None) \<longrightarrow>
      (\<exists>st' ops. process_documents L env rt cfg cname cc os tf docs st = Inr st' \<and>
                 sent st' = sent st @ ops \<and> length (audit_rows ops) = length docs)) \<and>
   (\<forall>L env rt cfg cname cc os tf doc st.
      \<exists>ops. sent (final_state (process_document L env rt cfg cname cc os tf doc st)) =
               sent st @ ops \<and> length (audit_rows ops) \<le> 1)"
proof -
  have A: "\<exists>p biz fin.
         sent (final_state (process_document L env rt cfg cname cc os tf doc st)) =
           sent st @ biz @
           [Insert Audit (fst (split_table_name (audit_table cfg)))
              (snd (split_table_name (audit_table cfg)))
              (build_audit_row cfg (now env (ticks st + (if tf then 1 else 0)))
                 (object_id_value L cc doc) (VStr cname) (target_table cc) os
                 (missing_columns tr) p)] @ fin \<and>
         list_all is_business_op biz \<and> audit_rows biz = [] \<and>
         list_all is_closing_op fin \<and> audit_rows fin = []"
    if t: "transform_document L doc (mappings cc) (date_formats rt) (date_output_format rt)
        (datetime_output_format rt) = Inr tr"
      and v: "business_columns_validated cfg"
      and rb: "\<forall>row. failure env
               (sent st @ [Insert Business (fst (split_table_name (target_table cc)))
                             (snd (split_table_name (target_table cc))) row])
               Rollback = None"
    for L env rt cfg cname cc os tf doc st tr
  proof -
    from process_document_outcome [OF t v rb, where cname = cname and os = os and tf = tf] obtain p biz fin where
      o: "sent (final_state (process_document L env rt cfg cname cc os tf doc st)) =
           sent st @ biz @
           [Insert Audit (fst (split_table_name (audit_table cfg)))
              (snd (split_table_name (audit_table cfg)))
              (build_audit_row cfg (now env (ticks st + (if tf then 1 else 0)))
                 (object_id_value L cc doc) (VStr cname) (target_table cc) os
                 (missing_columns tr) p)] @ fin"
         "list_all is_business_op biz" "list_all is_closing_op fin"
      by blast
    show ?thesis
      using o business_ops_quiet [OF o(2)] closing_ops_quiet [OF o(3)]
      by (intro exI [of _ p] exI [of _ biz] exI [of _ fin]) simp
  qed
  have B: "\<exists>st'. process_document L env rt cfg cname cc os tf doc st = Inr st'"
    if "transform_document L doc (mappings cc) (date_formats rt) (date_output_format rt)
        (datetime_output_format rt) = Inr tr"
      "business_columns_validated cfg" "\<forall>s. failure env s Rollback = None"
    for L env rt cfg cname cc os tf doc st tr
    by (rule process_document_returns [OF that])
  have C: "\<exists>st' ops. process_documents L env rt cfg cname cc os tf docs st = Inr st' \<and>
                 sent st' = sent st @ ops \<and> length (audit_rows ops) = length docs"
    if "list_all (\<lambda>doc. \<not> isl (transform_document L doc (mappings cc) (date_formats rt)
                               (date_output_format rt) (datetime_output_format rt))) docs"
      "business_columns_validated cfg" "\<forall>s. failure env s Rollback = None"
    for L env rt cfg cname cc os tf docs st
    by (rule process_documents_returns [OF that(2,3,1)])
  have D: "\<exists>ops. sent (final_state (process_document L env rt cfg cname cc os tf doc st)) =
               sent st @ ops \<and> length (audit_rows ops) \<le> 1"
    for L env rt cfg cname cc os tf doc st
    using process_document_any [of L env rt cfg cname cc os tf doc st] by blast
  show ?thesis
  proof (intro conjI allI impI, goal_cases)
    case (1 L env rt cfg cname cc os tf doc st tr)
    then show ?case by (elim conjE) (rule A; assumption)
  next
    case (2 L env rt cfg cname cc os tf doc st tr)
    then show ?case by (elim conjE) (rule B; assumption)
  next
    case (3 L env rt cfg cname cc os tf docs st)
    then show ?case by (elim conjE) (rule C; assumption)
  next
    case (4 L env rt cfg cname cc os tf doc st)
    show ?case by (rule D)
  qed
qed

theorem one_audit_insert_per_document_witness:
  "length (audit_rows (sent (final_state
     (process_document example_lib (rejecting_db [(''public'', ''users'')]) example_runtime
        (example_audit ''audit'') ''users'' example_users ''ALREADY_EXISTS'' True
        example_document start_state)))) = 1 \<and>
   map is_business_op (sent (final_state
     (process_document example_lib (rejecting_db [(''public'', ''users'')]) example_runtime
        (example_audit ''audit'') ''users'' example_users ''ALREADY_EXISTS'' True
        example_document start_state))) = [True, True, False, False] \<and>
   \<not> isl (process_document example_lib (rejecting_db [(''public'', ''users'')]) example_runtime
        (example_audit ''audit'') ''users'' example_users ''ALREADY_EXISTS'' True
        example_document start_state) \<and>
   \<not> isl (process_documents example_lib (rejecting_db [(''public'', ''users'')]) example_runtime
        (example_audit ''audit'') ''users'' example_users ''ALREADY_EXISTS'' True
        [example_document, []] start_state) \<and>
   length (audit_rows (sent (projr
     (process_documents example_lib (rejecting_db [(''public'', ''users'')]) example_runtime
        (example_audit ''audit'') ''users'' example_users ''ALREADY_EXISTS'' True
        [example_document, []] start_state)))) = 2"
proof -
  let ?env = "rejecting_db [(''public'', ''users'')]"
  let ?cfg = "example_audit ''audit''"
  let ?T = "transform_document example_lib example_document (mappings example_users)
              (date_formats example_runtime) (date_output_format example_runtime)
              (datetime_output_format example_runtime)"
  let ?X = "process_document example_lib ?env example_runtime ?cfg ''users'' example_users
              ''ALREADY_EXISTS'' True example_document start_state"
  let ?Y = "process_documents example_lib ?env example_runtime ?cfg ''users'' example_users
              ''ALREADY_EXISTS'' True [example_document, []] start_state"
  have "\<not> isl ?T" by code_simp
  then have t: "?T = Inr (projr ?T)" by (cases ?T) simp_all
  have v: "business_columns_validated ?cfg"
    by (simp add: business_columns_validated_def example_audit_def)
  have rb: "\<forall>row. failure ?env
              (sent start_state @
               [Insert Business (fst (split_table_name (target_table example_users)))
                  (snd (split_table_name (target_table example_users))) row])
              Rollback = None"
    by (simp add: rejecting_db_def)
  have rb_all: "\<forall>s. failure ?env s Rollback = None"
    by (simp add: rejecting_db_def)
  have ts: "list_all (\<lambda>doc. \<not> isl (transform_document example_lib doc (mappings example_users)
              (date_formats example_runtime) (date_output_format example_runtime)
              (datetime_output_format example_runtime))) [example_document, []]"
    by code_simp
  have "\<exists>p biz fin.
         sent (final_state ?X) =
           sent start_state @ biz @
           [Insert Audit (fst (split_table_name (audit_table ?cfg)))
              (snd (split_table_name (audit_table ?cfg)))
              (build_audit_row ?cfg (now ?env (ticks start_state + (if True then 1 else 0)))
                 (object_id_value example_lib example_users example_document) (VStr ''users'')
                 (target_table example_users) ''ALREADY_EXISTS''
                 (missing_columns (projr ?T)) p)] @ fin \<and>
         list_all is_business_op biz \<and> audit_rows biz = [] \<and>
         list_all is_closing_op fin \<and> audit_rows fin = []"
    by (rule one_audit_insert_per_document [THEN conjunct1, rule_format])
      (rule conjI [OF t conjI [OF v rb]])
  then obtain p biz fin where
    "sent (final_state ?X) =
           sent start_state @ biz @
           [Insert Audit (fst (split_table_name (audit_table ?cfg)))
              (snd (split_table_name (audit_table ?cfg)))
              (build_audit_row ?cfg (now ?env (ticks start_state + (if True then 1 else 0)))
                 (object_id_value example_lib example_users example_document) (VStr ''users'')
                 (target_table example_users) ''ALREADY_EXISTS''
                 (missing_columns (projr ?T)) p)] @ fin"
    "audit_rows biz = []" "audit_rows fin = []"
    by blast
  then have 1: "length (audit_rows (sent (final_state ?X))) = 1"
    by (simp add: audit_rows_append start_state_def)
  have 2: "map is_business_op (sent (final_state ?X)) = [True, True, False, False]"
    by code_simp
  have "\<exists>st'. ?X = Inr st'"
    by (rule one_audit_insert_per_document [THEN conjunct2, THEN conjunct1, rule_format])
      (rule conjI [OF t conjI [OF v rb_all]])
  then have 3: "\<not> isl ?X" by auto
  have "\<exists>st' ops. ?Y = Inr st' \<and> sent st' = sent start_state @ ops \<and>
          length (audit_rows ops) = length [example_document, []]"
    by (rule one_audit_insert_per_document
          [THEN conjunct2, THEN conjunct2, THEN conjunct1, rule_format])
      (rule conjI [OF ts conjI [OF v rb_all]])
  then obtain st' ops where
    y: "?Y = Inr st'" "sent st' = sent start_state @ ops"
       "length (audit_rows ops) = length [example_document, []]"
    by blast
  from y(1) have 4: "\<not> isl ?Y" by simp
  from y have 5: "length (audit_rows (sent (projr ?Y))) = 2"
    by (simp add: start_state_def)
  from 1 2 3 4 5 show ?thesis by blast
qed

subsection \<open>Missing attributes\<close>

lemma insert_business_row_success:
  assumes "insert_business_row env cfg cname cc True doc tr st = Inr (p, f, st')"
    "\<forall>row. failure env (sent st)
             (Insert Business (fst (split_table_name (target_table cc)))
                (snd (split_table_name (target_table cc))) row) = None"
  shows "p = business_status cfg (errors tr) \<and> \<not> f \<and> ticks st' = ticks st + 1 \<and>
         (\<exists>row. sent st' = sent st @
            [Insert Business (fst (split_table_name (target_table cc)))
               (snd (split_table_name (target_table cc))) row])"
  using assms
  by (cases "split_table_name (target_table cc)")
    (auto simp: insert_business_row_def insert_row_def execute_def rollback_def Let_def
      store_items_not_empty split: if_splits sum.splits prod.splits option.splits)

lemma transform_document_without_errors:
  assumes "distinct (map (\<lambda>(a, m). column m) ms)"
    "\<forall>(a, m) \<in> set ms. \<forall>v. map_of document a = Some v \<longrightarrow>
       (\<exists>c e. transform_value L v (type m) fs dof dtof = Inr (c, e) \<and> \<not> truthy_error e)"
  shows "\<exists>r. transform_document L document ms fs dof dtof = Inr r \<and>
           length (missing_columns r) = length (filter (\<lambda>(a, m). map_of document a = None) ms) \<and>
           (\<forall>(a, m) \<in> set ms. map_of document a = None \<longrightarrow>
              map_of (transformed r) (column m) = Some (Val VNone)) \<and>
           errors r = []"
proof -
  let ?acc = "\<lparr>transformed = [], missing_columns = [], errors = []\<rparr>"
  from assms(2) have "\<forall>(a, m) \<in> set ms. \<forall>v. map_of document a = Some v \<longrightarrow>
       (\<exists>r. transform_value L v (type m) fs dof dtof = Inr r)"
    by fastforce
  from loop_returns [OF this, of ?acc] obtain r where
    r: "transform_loop L document fs dof dtof ms ?acc = Inr r" ..
  have 1: "length (missing_columns r) = length (filter (\<lambda>(a, m). map_of document a = None) ms)"
    using loop_missing [OF r] by simp
  have 2: "\<forall>(a, m) \<in> set ms. map_of document a = None \<longrightarrow>
              map_of (transformed r) (column m) = Some (Val VNone)"
    using loop_null [OF r assms(1)] by blast
  have 3: "errors r = []"
    using loop_no_error [OF r assms(2)] by simp
  show ?thesis
    using r 1 2 3 by (simp add: transform_document_def)
qed

lemma audited_status:
  assumes "ops = biz @ [Insert Audit schema table (build_audit_row cfg i oid sc oname os ms p)] @ fin"
    and "audit_rows biz = []" and "list_all is_closing_op fin"
  shows "map (processing_status_of cfg) (audit_rows ops) = [Some (Val (VStr p))]"
  using assms closing_ops_quiet [of fin]
  by (simp add: audit_rows_append build_audit_row_status)

text \<open>
  C4 as stated fails. The document below lacks the mapped attribute \<open>name\<close> and has no
  field error: \<open>missing_columns\<close> is \<open>[name]\<close> and \<open>errors\<close> is empty. When its destination
  table is named by the schema source and is not in the database, the orchestrator
  audits it with the processing status \<open>MISSING\<close>; when the table is there and the insert
  into it is refused, with the processing status \<open>ERROR\<close>. And when two attributes are
  mapped to one column, the column of the absent attribute is not null in the row: the
  attribute that is present has written it.
\<close>

theorem missing_attribute_is_audited_missing_or_error:
  "missing_columns (projr
     (transform_document example_lib [(''id'', VInt 1), (''joined'', VStr ''2024-01-05'')]
        (mappings example_users) (date_formats example_runtime)
        (date_output_format example_runtime) (datetime_output_format example_runtime))) =
     [''name''] \<and>
   errors (projr
     (transform_document example_lib [(''id'', VInt 1), (''joined'', VStr ''2024-01-05'')]
        (mappings example_users) (date_formats example_runtime)
        (date_output_format example_runtime) (datetime_output_format example_runtime))) = [] \<and>
   map (processing_status_of (example_audit ''audit''))
     (audit_rows (sent (final_state
        (process_collection example_lib (quiet_db []) example_runtime (example_audit ''audit'')
           [(''users'', example_users)] [''public.users''] ''users''
           [[(''id'', VInt 1), (''joined'', VStr ''2024-01-05'')]] start_state)))) =
     [Some (Val (VStr ''MISSING''))] \<and>
   map (processing_status_of (example_audit ''audit''))
     (audit_rows (sent (final_state
        (process_collection example_lib (rejecting_db [(''public'', ''users'')]) example_runtime
           (example_audit ''audit'') [(''users'', example_users)] [''public.users''] ''users''
           [[(''id'', VInt 1), (''joined'', VStr ''2024-01-05'')]] start_state)))) =
     [Some (Val (VStr ''ERROR''))] \<and>
   missing_columns (projr
     (transform_document example_lib [(''name'', VStr ''Al'')]
        [(''nick'', \<lparr>column = ''name'', type = ''text''\<rparr>),
         (''name'', \<lparr>column = ''name'', type = ''text''\<rparr>)]
        (date_formats example_runtime) (date_output_format example_runtime)
        (datetime_output_format example_runtime))) = [''name''] \<and>
   errors (projr
     (transform_document example_lib [(''name'', VStr ''Al'')]
        [(''nick'', \<lparr>column = ''name'', type = ''text''\<rparr>),
         (''name'', \<lparr>column = ''name'', type = ''text''\<rparr>)]
        (date_formats example_runtime) (date_output_format example_runtime)
        (datetime_output_format example_runtime))) = [] \<and>
   map_of (transformed (projr
     (transform_document example_lib [(''name'', VStr ''Al'')]
        [(''nick'', \<lparr>column = ''name'', type = ''text''\<rparr>),
         (''name'', \<lparr>column = ''name'', type = ''text''\<rparr>)]
        (date_formats example_runtime) (date_output_format example_runtime)
        (datetime_output_format example_runtime)))) ''name'' = Some (Val (VStr ''Al''))"
  by code_simp

text \<open>
  C4, amended. Take a mapping whose target columns are pairwise distinct and a document
  that lacks \<open>N\<close> of the mapped attributes, every attribute it has being coerced without
  error. Then \<open>transform_document\<close> returns, \<open>missing_columns\<close> has length \<open>N\<close>, each of the
  \<open>N\<close> target columns is null in the transformed row, \<open>errors\<close> is empty, and the status
  that the orchestrator derives from the transformation is the configured value for
  success.

  The processing status that the orchestrator audits for a document transformed without
  errors is not always that status. Under a configuration that passed
  \<open>validate_app_config\<close>, and when the rollback of a failed insert does not raise, the
  iteration attempts one audit insert, whose row carries \<open>missing_columns\<close> and a
  processing status that depends on the flag \<open>table_exists\<close> of the loop and on the insert
  into the destination table:

    \<^item> the flag is false (the table is missing and was not created): no insert into the
      destination table is sent, and the status is the configured value for a missing
      table;
    \<^item> the flag is true and the insert does not raise: the insert is the only statement
      before the audit insert, and the status is the configured value for success;
    \<^item> the flag is true and the insert raises: it is rolled back, and the status is the
      configured value for an error.
\<close>

theorem missing_attributes_are_not_errors:
  "(\<forall>L document ms fs dof dtof N.
      distinct (map (\<lambda>(a, m). column m) ms) \<and>
      length (filter (\<lambda>(a, m). map_of document a = None) ms) = N \<and>
      (\<forall>(a, m) \<in> set ms. \<forall>v. map_of document a = Some v \<longrightarrow>
         (\<exists>c e. transform_value L v (type m) fs dof dtof = Inr (c, e) \<and> \<not> truthy_error e)) \<longrightarrow>
      (\<exists>r. transform_document L document ms fs dof dtof = Inr r \<and>
            length (missing_columns r) = N \<and>
            (\<forall>(a, m) \<in> set ms. map_of document a = None \<longrightarrow>
               map_of (transformed r) (column m) = Some (Val VNone)) \<and>
            errors r = [] \<and>
            (\<forall>cfg. business_status cfg (errors r) = status_success (status_values cfg)))) \<and>
   (\<forall>L env rt cfg cname cc os tf doc st tr.
      transform_document L doc (mappings cc) (date_formats rt) (date_output_format rt)
        (datetime_output_format rt) = Inr tr \<and>
      errors tr = [] \<and>
      business_columns_validated cfg \<and>
      (\<forall>row. failure env
               (sent st @ [Insert Business (fst (split_table_name (target_table cc)))
                             (snd (split_table_name (target_table cc))) row])
               Rollback = None) \<longrightarrow>
      (\<exists>p biz fin.
         sent (final_state (process_document L env rt cfg cname cc os tf doc st)) =
           sent st @ biz @
           [Insert Audit (fst (split_table_name (audit_table cfg)))
              (snd (split_table_name (audit_table cfg)))
              (build_audit_row cfg (now env (ticks st + (if tf then 1 else 0)))
                 (object_id_value L cc doc) (VStr cname) (target_table cc) os
                 (missing_columns tr) p)] @ fin \<and>
         list_all is_closing_op fin \<and>
         (\<not> tf \<longrightarrow> biz = [] \<and> p = status_missing (status_values cfg)) \<and>
         (tf \<longrightarrow>
            (\<exists>row.
               (failure env (sent st)
                  (Insert Business (fst (split_table_name (target_table cc)))
                     (snd (split_table_name (target_table cc))) row) = None \<and>
                biz = [Insert Business (fst (split_table_name (target_table cc)))
                         (snd (split_table_name (target_table cc))) row] \<and>
                p = status_success (status_values cfg)) \<or>
               (failure env (sent st)
                  (Insert Business (fst (split_table_name (target_table cc)))
                     (snd (split_table_name (target_table cc))) row) \<noteq> None \<and>
                biz = [Insert Business (fst (split_table_name (target_table cc)))
                         (snd (split_table_name (target_table cc))) row, Rollback] \<and>
                p = status_error (status_values cfg))))))"
proof -
  have A: "\<exists>r. transform_document L document ms fs dof dtof = Inr r \<and>
            length (missing_columns r) = N \<and>
            (\<forall>(a, m) \<in> set ms. map_of document a = None \<longrightarrow>
               map_of (transformed r) (column m) = Some (Val VNone)) \<and>
            errors r = [] \<and>
            (\<forall>cfg. business_status cfg (errors r) = status_success (status_values cfg))"
    if "distinct (map (\<lambda>(a, m). column m) ms)"
      "length (filter (\<lambda>(a, m). map_of document a = None) ms) = N"
      "\<forall>(a, m) \<in> set ms. \<forall>v. map_of document a = Some v \<longrightarrow>
         (\<exists>c e. transform_value L v (type m) fs dof dtof = Inr (c, e) \<and> \<not> truthy_error e)"
    for L document ms fs dof dtof N
    using transform_document_without_errors [OF that(1,3)] that(2)
    by (auto simp: business_status_def)
  have B: "\<exists>p biz fin.
         sent (final_state (process_document L env rt cfg cname cc os tf doc st)) =
           sent st @ biz @
           [Insert Audit (fst (split_table_name (audit_table cfg)))
              (snd (split_table_name (audit_table cfg)))
              (build_audit_row cfg (now env (ticks st + (if tf then 1 else 0)))
                 (object_id_value L cc doc) (VStr cname) (target_table cc) os
                 (missing_columns tr) p)] @ fin \<and>
         list_all is_closing_op fin \<and>
         (\<not> tf \<longrightarrow> biz = [] \<and> p = status_missing (status_values cfg)) \<and>
         (tf \<longrightarrow>
            (\<exists>row.
               (failure env (sent st)
                  (Insert Business (fst (split_table_name (target_table cc)))
                     (snd (split_table_name (target_table cc))) row) = None \<and>
                biz = [Insert Business (fst (split_table_name (target_table cc)))
                         (snd (split_table_name (target_table cc))) row] \<and>
                p = status_success (status_values cfg)) \<or>
               (failure env (sent st)
                  (Insert Business (fst (split_table_name (target_table cc)))
                     (snd (split_table_name (target_table cc))) row) \<noteq> None \<and>
                biz = [Insert Business (fst (split_table_name (target_table cc)))
                         (snd (split_table_name (target_table cc))) row, Rollback] \<and>
                p = status_error (status_values cfg))))"
    if t: "transform_document L doc (mappings cc) (date_formats rt) (date_output_format rt)
        (datetime_output_format rt) = Inr tr"
      and e: "errors tr = []"
      and v: "business_columns_validated cfg"
      and rb: "\<forall>row. failure env
               (sent st @ [Insert Business (fst (split_table_name (target_table cc)))
                             (snd (split_table_name (target_table cc))) row])
               Rollback = None"
    for L env rt cfg cname cc os tf doc st tr
  proof -
    have s: "business_status cfg (errors tr) = status_success (status_values cfg)"
      using e by (simp add: business_status_def)
    show ?thesis
      using process_document_outcome [OF t v rb, where cname = cname and os = os and tf = tf]
      unfolding s by blast
  qed
  show ?thesis
  proof (intro conjI allI impI, goal_cases)
    case (1 L document ms fs dof dtof N)
    then show ?case by (elim conjE) (rule A; assumption)
  next
    case (2 L env rt cfg cname cc os tf doc st tr)
    then show ?case by (elim conjE) (rule B; assumption)
  qed
qed

theorem missing_attributes_are_not_errors_witness:
  "(\<exists>r. transform_document example_lib [(''id'', VInt 1), (''joined'', VStr ''2024-01-05'')]
          (mappings example_users) (date_formats example_runtime)
          (date_output_format example_runtime) (datetime_output_format example_runtime) = Inr r \<and>
        length (missing_columns r) = 1 \<and>
        map_of (transformed r) ''name'' = Some (Val VNone) \<and>
        errors r = [] \<and>
        business_status (example_audit ''audit'') (errors r) = ''SUCCESS'') \<and>
   map (processing_status_of (example_audit ''audit''))
     (audit_rows (sent (final_state
        (process_document example_lib (quiet_db [(''public'', ''users'')]) example_runtime
           (example_audit ''audit'') ''users'' example_users ''ALREADY_EXISTS'' True
           [(''id'', VInt 1), (''joined'', VStr ''2024-01-05'')] start_state)))) =
     [Some (Val (VStr ''SUCCESS''))] \<and>
   map (processing_status_of (example_audit ''audit''))
     (audit_rows (sent (final_state
        (process_document example_lib (quiet_db []) example_runtime
           (example_audit ''audit'') ''users'' example_users ''MISSING'' False
           [(''id'', VInt 1), (''joined'', VStr ''2024-01-05'')] start_state)))) =
     [Some (Val (VStr ''MISSING''))] \<and>
   map (processing_status_of (example_audit ''audit''))
     (audit_rows (sent (final_state
        (process_document example_lib (rejecting_db [(''public'', ''users'')]) example_runtime
           (example_audit ''audit'') ''users'' example_users ''ALREADY_EXISTS'' True
           [(''id'', VInt 1), (''joined'', VStr ''2024-01-05'')] start_state)))) =
     [Some (Val (VStr ''ERROR''))]"
proof -
  let ?doc = "[(''id'', VInt 1), (''joined'', VStr ''2024-01-05'')]"
  let ?fs = "date_formats example_runtime"
  let ?dof = "date_output_format example_runtime"
  let ?dtof = "datetime_output_format example_runtime"
  let ?cfg = "example_audit ''audit''"
  let ?quiet = "quiet_db [(''public'', ''users'')]"
  let ?empty = "quiet_db []"
  let ?rejecting = "rejecting_db [(''public'', ''users'')]"
  let ?X1 = "process_document example_lib ?quiet example_runtime ?cfg ''users'' example_users
               ''ALREADY_EXISTS'' True ?doc start_state"
  let ?X2 = "process_document example_lib ?empty example_runtime ?cfg ''users'' example_users
               ''MISSING'' False ?doc start_state"
  let ?X3 = "process_document example_lib ?rejecting example_runtime ?cfg ''users'' example_users
               ''ALREADY_EXISTS'' True ?doc start_state"
  let ?tr = "\<lparr>transformed = [(''id'', Val (VInt 1)), (''name'', Val VNone),
                            (''joined'', Val (VStr ''2024-01-05''))],
             missing_columns = [''name''], errors = []\<rparr>"
  have tv1: "transform_value example_lib (VInt 1) ''int'' ?fs ?dof ?dtof = Inr (Val (VInt 1), None)"
    by code_simp
  have tv2: "transform_value example_lib (VStr ''2024-01-05'') ''date'' ?fs ?dof ?dtof =
               Inr (Val (VStr ''2024-01-05''), None)"
    by code_simp
  have h1: "distinct (map (\<lambda>(a, m). column m) (mappings example_users))"
    by (simp add: example_users_def)
  have h2: "length (filter (\<lambda>(a, m). map_of ?doc a = None) (mappings example_users)) = 1"
    by (simp add: example_users_def)
  have h3: "\<forall>(a, m) \<in> set (mappings example_users). \<forall>v. map_of ?doc a = Some v \<longrightarrow>
         (\<exists>c e. transform_value example_lib v (type m) ?fs ?dof ?dtof = Inr (c, e) \<and>
                \<not> truthy_error e)"
    using tv1 tv2 by (simp add: example_users_def)
  from missing_attributes_are_not_errors [THEN conjunct1, rule_format, OF conjI [OF h1 conjI [OF h2 h3]]]
  obtain r where
    r: "transform_document example_lib ?doc (mappings example_users) ?fs ?dof ?dtof = Inr r"
       "length (missing_columns r) = 1"
       "\<forall>(a, m) \<in> set (mappings example_users). map_of ?doc a = None \<longrightarrow>
          map_of (transformed r) (column m) = Some (Val VNone)"
       "errors r = []"
       "\<forall>cfg. business_status cfg (errors r) = status_success (status_values cfg)"
    by blast
  from r(3) have n: "map_of (transformed r) ''name'' = Some (Val VNone)"
    by (simp add: example_users_def)
  from r(5) have b: "business_status ?cfg (errors r) = ''SUCCESS''"
    by (simp add: example_audit_def)
  from r(1,2,4) n b have 1: "\<exists>r. transform_document example_lib ?doc (mappings example_users)
          ?fs ?dof ?dtof = Inr r \<and>
        length (missing_columns r) = 1 \<and>
        map_of (transformed r) ''name'' = Some (Val VNone) \<and>
        errors r = [] \<and>
        business_status ?cfg (errors r) = ''SUCCESS''"
    by blast
  have t: "transform_document example_lib ?doc (mappings example_users) ?fs ?dof ?dtof = Inr ?tr"
    by code_simp
  have e: "errors ?tr = []" by simp
  have v: "business_columns_validated ?cfg"
    by (simp add: business_columns_validated_def example_audit_def)
  have f0: "sent start_state = []"
    by (simp add: start_state_def)
  have f1: "status_success (status_values ?cfg) = ''SUCCESS''"
    "status_missing (status_values ?cfg) = ''MISSING''"
    "status_error (status_values ?cfg) = ''ERROR''"
    by (simp_all add: example_audit_def)
  have q1: "failure ?quiet s op = None" for s op
    by (simp add: quiet_db_def)
  have q3: "failure ?rejecting s Rollback = None"
    "failure ?rejecting s (Insert Business schema table row) \<noteq> None" for s schema table row
    by (simp_all add: rejecting_db_def)
  have rb1: "\<forall>row. failure ?quiet
              (sent start_state @
               [Insert Business (fst (split_table_name (target_table example_users)))
                  (snd (split_table_name (target_table example_users))) row])
              Rollback = None"
    by (simp add: q1)
  have rb2: "\<forall>row. failure ?empty
              (sent start_state @
               [Insert Business (fst (split_table_name (target_table example_users)))
                  (snd (split_table_name (target_table example_users))) row])
              Rollback = None"
    by (simp add: quiet_db_def)
  have rb3: "\<forall>row. failure ?rejecting
              (sent start_state @
               [Insert Business (fst (split_table_name (target_table example_users)))
                  (snd (split_table_name (target_table example_users))) row])
              Rollback = None"
    by (simp add: q3)
  from missing_attributes_are_not_errors [THEN conjunct2, rule_format,
      OF conjI [OF t conjI [OF e conjI [OF v rb1]]],
      where cname = "''users''" and os = "''ALREADY_EXISTS''" and tf = True]
  obtain p1 biz1 fin1 where
    a1: "sent (final_state ?X1) = sent start_state @ biz1 @
           [Insert Audit (fst (split_table_name (audit_table ?cfg)))
              (snd (split_table_name (audit_table ?cfg)))
              (build_audit_row ?cfg (now ?quiet (ticks start_state + (if True then 1 else 0)))
                 (object_id_value example_lib example_users ?doc) (VStr ''users'')
                 (target_table example_users) ''ALREADY_EXISTS'' (missing_columns ?tr) p1)] @ fin1"
      and c1: "list_all is_closing_op fin1"
      and k1: "\<exists>row.
           (failure ?quiet (sent start_state)
              (Insert Business (fst (split_table_name (target_table example_users)))
                 (snd (split_table_name (target_table example_users))) row) = None \<and>
            biz1 = [Insert Business (fst (split_table_name (target_table example_users)))
                     (snd (split_table_name (target_table example_users))) row] \<and>
            p1 = status_success (status_values ?cfg)) \<or>
           (failure ?quiet (sent start_state)
              (Insert Business (fst (split_table_name (target_table example_users)))
                 (snd (split_table_name (target_table example_users))) row) \<noteq> None \<and>
            biz1 = [Insert Business (fst (split_table_name (target_table example_users)))
                     (snd (split_table_name (target_table example_users))) row, Rollback] \<and>
            p1 = status_error (status_values ?cfg))"
    by blast
  from k1 have b1: "audit_rows biz1 = []" "p1 = ''SUCCESS''"
    unfolding f1 by (auto simp: q1)
  have 2: "map (processing_status_of ?cfg) (audit_rows (sent (final_state ?X1))) =
             [Some (Val (VStr ''SUCCESS''))]"
    using audited_status [OF a1 [unfolded f0 append_Nil] b1(1) c1] b1(2) by simp
  from missing_attributes_are_not_errors [THEN conjunct2, rule_format,
      OF conjI [OF t conjI [OF e conjI [OF v rb2]]],
      where cname = "''users''" and os = "''MISSING''" and tf = False]
  obtain p2 biz2 fin2 where
    a2: "sent (final_state ?X2) = sent start_state @ biz2 @
           [Insert Audit (fst (split_table_name (audit_table ?cfg)))
              (snd (split_table_name (audit_table ?cfg)))
              (build_audit_row ?cfg (now ?empty (ticks start_state + (if False then 1 else 0)))
                 (object_id_value example_lib example_users ?doc) (VStr ''users'')
                 (target_table example_users) ''MISSING'' (missing_columns ?tr) p2)] @ fin2"
      and c2: "list_all is_closing_op fin2"
      and k2: "biz2 = [] \<and> p2 = status_missing (status_values ?cfg)"
    by blast
  from k2 have b2: "audit_rows biz2 = []" "p2 = ''MISSING''"
    unfolding f1 by simp_all
  have 3: "map (processing_status_of ?cfg) (audit_rows (sent (final_state ?X2))) =
             [Some (Val (VStr ''MISSING''))]"
    using audited_status [OF a2 [unfolded f0 append_Nil] b2(1) c2] b2(2) by simp
  from missing_attributes_are_not_errors [THEN conjunct2, rule_format,
      OF conjI [OF t conjI [OF e conjI [OF v rb3]]],
      where cname = "''users''" and os = "''ALREADY_EXISTS''" and tf = True]
  obtain p3 biz3 fin3 where
    a3: "sent (final_state ?X3) = sent start_state @ biz3 @
           [Insert Audit (fst (split_table_name (audit_table ?cfg)))
              (snd (split_table_name (audit_table ?cfg)))
              (build_audit_row ?cfg (now ?rejecting (ticks start_state + (if True then 1 else 0)))
                 (object_id_value example_lib example_users ?doc) (VStr ''users'')
                 (target_table example_users) ''ALREADY_EXISTS'' (missing_columns ?tr) p3)] @ fin3"
      and c3: "list_all is_closing_op fin3"
      and k3: "\<exists>row.
           (failure ?rejecting (sent start_state)
              (Insert Business (fst (split_table_name (target_table example_users)))
                 (snd (split_table_name (target_table example_users))) row) = None \<and>
            biz3 = [Insert Business (fst (split_table_name (target_table example_users)))
                     (snd (split_table_name (target_table example_users))) row] \<and>
            p3 = status_success (status_values ?cfg)) \<or>
           (failure ?rejecting (sent start_state)
              (Insert Business (fst (split_table_name (target_table example_users)))
                 (snd (split_table_name (target_table example_users))) row) \<noteq> None \<and>
            biz3 = [Insert Business (fst (split_table_name (target_table example_users)))
                     (snd (split_table_name (target_table example_users))) row, Rollback] \<and>
            p3 = status_error (status_values ?cfg))"
    by blast
  from k3 have b3: "audit_rows biz3 = []" "p3 = ''ERROR''"
    unfolding f1 using q3(2) by auto
  have 4: "map (processing_status_of ?cfg) (audit_rows (sent (final_state ?X3))) =
             [Some (Val (VStr ''ERROR''))]"
    using audited_status [OF a3 [unfolded f0 append_Nil] b3(1) c3] b3(2) by simp
  from 1 2 3 4 show ?thesis by blast
qed

subsection \<open>The status of the destination table\<close>












subsection \<open>Table names, the schema source and the existence check\<close>






subsection \<open>Failures that the transformer catches\<close>

text \<open>
  A coercion that raises one of the three classes named by the \<open>except\<close> clause is turned
  into an error text; the loop then sets the column to null, appends
  \<open>"<attribute>: <message>"\<close> to \<open>errors\<close> and goes on to the next attribute.
\<close>

lemma caught_failure_becomes_error:
  assumes "v \<noteq> VNone"
    "try_body L v (normalize_type target_type) fs dof dtof = Inl e" "caught e"
  shows "transform_value L v target_type fs dof dtof =
           Inr (Val VNone, Some (''invalid value for type '' @ [CHR 0x27] @ target_type @ [CHR 0x27]))"
  using assms by (simp add: transform_value_def)

lemma error_is_isolated:
  assumes "map_of document source_attr = Some v"
    "transform_value L v (type m) fs dof dtof = Inr (c, Some message)" "message \<noteq> []"
  shows "transform_step L document fs dof dtof source_attr m acc =
           Inr (acc\<lparr>transformed := AList.update (column m) (Val VNone) (transformed acc),
                    errors := errors acc @ [source_attr @ '': '' @ message]\<rparr>)"
  using assms by (simp add: transform_step_def)

lemma escaping_exception_is_not_caught:
  "transform_value L v target_type fs dof dtof = Inl e \<Longrightarrow> \<not> caught e"
  by (auto simp: transform_value_def split: if_splits sum.splits option.splits)

subsection \<open>ensure_database with auto-create enabled\<close>

text \<open>
  With auto-create enabled the probe is made. A probe that connects ends the function; an
  \<open>OperationalError\<close> whose message does not contain \<open>does not exist\<close> is raised as a
  \<open>LoadError\<close> after the single attempt; a message that contains it leads to the
  administrative database, where the database is created unless the catalog lists it.
\<close>

lemma ensure_database_enabled:
  assumes "create_if_missing cfg \<noteq> Some False"
  shows "(step_failure env [] (Connect (name cfg)) = None \<longrightarrow>
            ensure_database env cfg = (Inr (), [Connect (name cfg), Close])) \<and>
         (\<forall>message. step_failure env [] (Connect (name cfg)) = Some (OperationalError message) \<and>
            \<not> contains ''does not exist'' message \<longrightarrow>
            ensure_database env cfg =
              (Inl (LoadError (''Failed to connect to PostgreSQL: '' @ message)),
               [Connect (name cfg)])) \<and>
         (\<forall>message. step_failure env [] (Connect (name cfg)) = Some (OperationalError message) \<and>
            contains ''does not exist'' message \<longrightarrow>
            ensure_database env cfg = create_database env cfg [Connect (name cfg)])"
  using assms by (cases "create_if_missing cfg") (auto simp: ensure_database_def)

lemma create_database_issues_create:
  assumes "step_failure env steps (Connect (case admin_db cfg of None \<Rightarrow> ''postgres'' | Some a \<Rightarrow> a)) = None"
    "step_failure env (steps @ [Connect (case admin_db cfg of None \<Rightarrow> ''postgres'' | Some a \<Rightarrow> a)])
       (SelectDatabase (name cfg)) = None"
    "\<not> database_listed env
         (steps @ [Connect (case admin_db cfg of None \<Rightarrow> ''postgres'' | Some a \<Rightarrow> a)]) (name cfg)"
  shows "snd (create_database env cfg steps) =
           steps @ [Connect (case admin_db cfg of None \<Rightarrow> ''postgres'' | Some a \<Rightarrow> a),
                    SelectDatabase (name cfg), CreateDatabase (name cfg), Close]"
  using assms by (auto simp: create_database_def Let_def split: option.splits)

end
